theory Spec2Isabelle
  imports Complex_Main
begin

section \<open>Domain records\<close>

text \<open>
  The records follow the TypeScript interfaces used by the project store
  (ProjectContext) and by the burndown chart.  Conventions of the embedding:
  \<^item> a JavaScript \<open>number\<close> that carries story points is an exact rational
    (\<open>rat\<close>); the IEEE rounding of double arithmetic is not modelled;
  \<^item> a calendar date (\<open>startDate\<close>, \<open>endDate\<close>, \<open>completionDate\<close>) is its day
    number, counted in whole days from the epoch in UTC, so that \<open>parseISO\<close>,
    \<open>addDays\<close>, \<open>toISOString().split('T')[0]\<close> and \<open>completionDate.split('T')[0]\<close>
    are arithmetic on \<open>int\<close>; an instant (\<open>Date.now()\<close>, \<open>createdAt\<close>) is its
    number of milliseconds;
  \<^item> an optional field is an \<open>option\<close>; \<open>undefined\<close> and \<open>null\<close> are both \<open>None\<close>.
\<close>

type_synonym day = int
type_synonym millis = int

record sprint =
  s_id :: string
  s_title :: string
  s_description :: string
  s_projectId :: string
  s_startDate :: day
  s_endDate :: day
  s_status :: string

record task =
  t_id :: string
  t_title :: string
  t_description :: "string option"
  t_sprintId :: string
  t_status :: string
  t_assignedTo :: "string option"
  t_storyPoints :: "rat option"
  t_priority :: "string option"
  t_createdAt :: millis
  t_updatedAt :: millis
  t_projectId :: "string option"
  t_completionDate :: "day option"

text \<open>\<open>BurndownDataPoint\<close> without its display label \<open>formattedDate\<close>.\<close>

record burndownDataPoint =
  bd_date :: day
  bd_ideal :: int
  bd_actual :: "int option"

section \<open>Query accessors\<close>

definition getSprintsByProject :: "sprint list \<Rightarrow> string \<Rightarrow> sprint list" where
  "getSprintsByProject allSprints projectId = filter (\<lambda>s. s_projectId s = projectId) allSprints"

definition getTasksBySprint :: "task list \<Rightarrow> string \<Rightarrow> task list" where
  "getTasksBySprint allTasks sprintId = filter (\<lambda>t. t_sprintId t = sprintId) allTasks"

definition getBacklogTasks :: "task list \<Rightarrow> string \<Rightarrow> task list" where
  "getBacklogTasks allTasks projectId =
     filter (\<lambda>t. t_status t = ''backlog'' \<and> t_projectId t = Some projectId \<and> t_sprintId t = [])
       allTasks"

section \<open>Burndown generation\<close>

text \<open>\<open>task.storyPoints || 0\<close>\<close>

definition pointsOf :: "task \<Rightarrow> rat" where
  "pointsOf t = (case t_storyPoints t of None \<Rightarrow> 0 | Some p \<Rightarrow> p)"

text \<open>\<open>task.storyPoints !== undefined && task.storyPoints > 0\<close>\<close>

definition hasPoints :: "task \<Rightarrow> bool" where
  "hasPoints t = (case t_storyPoints t of None \<Rightarrow> False | Some p \<Rightarrow> 0 < p)"

text \<open>The tasks of a project are gathered sprint by sprint.\<close>

definition projectTasks :: "sprint list \<Rightarrow> task list \<Rightarrow> string \<Rightarrow> task list" where
  "projectTasks allSprints allTasks projectId =
     concat (map (\<lambda>s. getTasksBySprint allTasks (s_id s)) (getSprintsByProject allSprints projectId))"

definition tasksWithPoints :: "sprint list \<Rightarrow> task list \<Rightarrow> string \<Rightarrow> task list" where
  "tasksWithPoints allSprints allTasks projectId = filter hasPoints (projectTasks allSprints allTasks projectId)"

text \<open>The scan for the earliest start and the latest end, both \<open>null\<close> at first.\<close>

definition earliestStartDate :: "sprint list \<Rightarrow> day option" where
  "earliestStartDate ss =
     foldl (\<lambda>e s. case e of None \<Rightarrow> Some (s_startDate s)
                   | Some d \<Rightarrow> if s_startDate s < d then Some (s_startDate s) else Some d)
       None ss"

definition latestEndDate :: "sprint list \<Rightarrow> day option" where
  "latestEndDate ss =
     foldl (\<lambda>l s. case l of None \<Rightarrow> Some (s_endDate s)
                   | Some d \<Rightarrow> if d < s_endDate s then Some (s_endDate s) else Some d)
       None ss"

definition timeframeDays :: "day \<Rightarrow> day \<Rightarrow> int" where
  "timeframeDays earliest latest = max (latest - earliest + 1) 7"

definition totalStoryPoints :: "task list \<Rightarrow> rat" where
  "totalStoryPoints ts = foldl (\<lambda>sum t. sum + pointsOf t) 0 ts"

text \<open>
  \<open>completedTasksByDate\<close>: a \<open>Map\<close> from the completion day to the tasks completed on
  it, filled in task order.
\<close>

definition groupCompleted :: "(day \<rightharpoonup> task list) \<Rightarrow> task \<Rightarrow> (day \<rightharpoonup> task list)" where
  "groupCompleted m t =
     (case t_completionDate t of
        Some dateKey \<Rightarrow>
          if t_status t = ''done''
          then m(dateKey \<mapsto> (case m dateKey of None \<Rightarrow> [] | Some ts \<Rightarrow> ts) @ [t])
          else m
      | None \<Rightarrow> m)"

definition completedTasksByDate :: "task list \<Rightarrow> (day \<rightharpoonup> task list)" where
  "completedTasksByDate ts = foldl groupCompleted Map.empty ts"

text \<open>The inner loop \<open>for (let j = 0; j <= i; j++)\<close> of the actual line.\<close>

definition completedPoints :: "(day \<rightharpoonup> task list) \<Rightarrow> day \<Rightarrow> nat \<Rightarrow> rat" where
  "completedPoints byDate earliest i =
     foldl (\<lambda>acc j. case byDate (earliest + int j) of
                       None \<Rightarrow> acc
                     | Some ts \<Rightarrow> foldl (\<lambda>a t. a + pointsOf t) acc ts)
       0 [0..<Suc i]"

definition burndownPoint ::
  "rat \<Rightarrow> int \<Rightarrow> (day \<rightharpoonup> task list) \<Rightarrow> day \<Rightarrow> day \<Rightarrow> nat \<Rightarrow> burndownDataPoint" where
  "burndownPoint totalPoints frame byDate earliest today i =
     (let pointsPerDay = totalPoints / of_int frame;
          date = earliest + int i;
          idealRemaining = max 0 (totalPoints - of_nat i * pointsPerDay);
          actualPoints =
            (if date \<le> today
             then Some (max 0 (totalPoints - completedPoints byDate earliest i))
             else None)
      in \<lparr> bd_date = date,
           bd_ideal = round idealRemaining,
           bd_actual = map_option round actualPoints \<rparr>)"

text \<open>\<open>Map.prototype.set\<close> on an insertion-ordered map, and \<open>Array.from(m.values())\<close>.\<close>

fun mapSet :: "'k \<Rightarrow> 'v \<Rightarrow> ('k \<times> 'v) list \<Rightarrow> ('k \<times> 'v) list" where
  "mapSet k v [] = [(k, v)]"
| "mapSet k v ((k', v') # m) = (if k' = k then (k, v) # m else (k', v') # mapSet k v m)"

definition mapValues :: "('k \<times> 'v) list \<Rightarrow> 'v list" where
  "mapValues m = map snd m"

text \<open>
  \<open>generateBurndownData\<close>, as a function of the cached sprints and tasks, the project
  and today's day number (\<open>startOfDay(new Date())\<close>).
\<close>

definition generateBurndownData ::
  "sprint list \<Rightarrow> task list \<Rightarrow> string \<Rightarrow> day \<Rightarrow> burndownDataPoint list" where
  "generateBurndownData allSprints allTasks projectId today =
     (let projectSprints = getSprintsByProject allSprints projectId in
      if projectSprints = [] then []
      else
        let withPoints = tasksWithPoints allSprints allTasks projectId in
        if withPoints = [] then []
        else
          (case (earliestStartDate projectSprints, latestEndDate projectSprints) of
             (Some earliest, Some latest) \<Rightarrow>
               let frame = timeframeDays earliest latest;
                   totalPoints = totalStoryPoints withPoints
               in if totalPoints = 0 then []
                  else
                    let byDate = completedTasksByDate withPoints;
                        uniqueData =
                          foldl (\<lambda>m i.
                                   let p = burndownPoint totalPoints frame byDate earliest today i
                                   in mapSet (bd_date p) p m)
                            [] [0..<nat frame]
                    in mapValues uniqueData
           | _ \<Rightarrow> []))"

section \<open>The project store\<close>

subsection \<open>Cached entities and remote rows\<close>

record project =
  p_id :: string
  p_title :: string
  p_description :: string
  p_endGoal :: "string option"
  p_createdAt :: millis
  p_updatedAt :: millis
  p_ownerId :: "string option"
  p_ownerName :: "string option"
  p_ownerEmail :: "string option"
  p_isCollaboration :: bool
  p_role :: "string option"

text \<open>The \<open>BurndownData\<close> entries kept by the store, one list per project.\<close>

record burndownData =
  b_date :: day
  b_ideal :: rat
  b_actual :: rat

text \<open>
  Rows as the remote gateway returns them (snake-case columns).  The \<open>owner\<close> join of a
  project row is a pair of optional \<open>username\<close> and \<open>email\<close>.
\<close>

record project_row =
  pr_id :: string
  pr_title :: string
  pr_description :: "string option"
  pr_end_goal :: "string option"
  pr_created_at :: millis
  pr_updated_at :: millis
  pr_owner_id :: string
  pr_owner :: "(string option \<times> string option) option"

record sprint_row =
  sr_id :: string
  sr_title :: string
  sr_description :: "string option"
  sr_project_id :: string
  sr_start_date :: day
  sr_end_date :: day
  sr_status :: string

record task_row =
  tr_id :: string
  tr_title :: string
  tr_description :: "string option"
  tr_sprint_id :: "string option"
  tr_status :: string
  tr_assign_to :: "string option"
  tr_story_points :: "rat option"
  tr_priority :: "string option"
  tr_created_at :: millis
  tr_updated_at :: millis
  tr_project_id :: "string option"
  tr_completion_date :: "day option"

record collab_row =
  cr_role :: string
  cr_projects :: "project_row option"

text \<open>\<open>x || ''\<close> on an optional string.\<close>

definition orEmpty :: "string option \<Rightarrow> string" where
  "orEmpty x = (case x of None \<Rightarrow> [] | Some s \<Rightarrow> s)"

definition formatProject :: "project_row \<Rightarrow> project" where
  "formatProject r =
     \<lparr> p_id = pr_id r, p_title = pr_title r, p_description = orEmpty (pr_description r),
       p_endGoal = pr_end_goal r, p_createdAt = pr_created_at r, p_updatedAt = pr_updated_at r,
       p_ownerId = Some (pr_owner_id r),
       p_ownerName = Some (orEmpty (case pr_owner r of None \<Rightarrow> None | Some ow \<Rightarrow> fst ow)),
       p_ownerEmail = Some (orEmpty (case pr_owner r of None \<Rightarrow> None | Some ow \<Rightarrow> snd ow)),
       p_isCollaboration = False, p_role = None \<rparr>"

definition formatCollaboration :: "string \<Rightarrow> project_row \<Rightarrow> project" where
  "formatCollaboration role r =
     (formatProject r) \<lparr> p_isCollaboration := True, p_role := Some role \<rparr>"

definition formatSprint :: "sprint_row \<Rightarrow> sprint" where
  "formatSprint r =
     \<lparr> s_id = sr_id r, s_title = sr_title r, s_description = orEmpty (sr_description r),
       s_projectId = sr_project_id r, s_startDate = sr_start_date r,
       s_endDate = sr_end_date r, s_status = sr_status r \<rparr>"

text \<open>A task row read for a sprint: \<open>updatedAt\<close> is filled from \<open>created_at\<close>.\<close>

definition formatSprintTask :: "task_row \<Rightarrow> task" where
  "formatSprintTask r =
     \<lparr> t_id = tr_id r, t_title = tr_title r, t_description = tr_description r,
       t_sprintId = orEmpty (tr_sprint_id r), t_status = tr_status r,
       t_assignedTo = tr_assign_to r, t_storyPoints = tr_story_points r,
       t_priority = tr_priority r, t_createdAt = tr_created_at r,
       t_updatedAt = tr_created_at r, t_projectId = tr_project_id r,
       t_completionDate = tr_completion_date r \<rparr>"

text \<open>A task row read for a backlog: sprint and status are fixed.\<close>

definition formatBacklogTask :: "task_row \<Rightarrow> task" where
  "formatBacklogTask r =
     \<lparr> t_id = tr_id r, t_title = tr_title r, t_description = tr_description r,
       t_sprintId = [], t_status = ''backlog'',
       t_assignedTo = tr_assign_to r, t_storyPoints = tr_story_points r,
       t_priority = tr_priority r, t_createdAt = tr_created_at r,
       t_updatedAt = tr_updated_at r, t_projectId = tr_project_id r,
       t_completionDate = tr_completion_date r \<rparr>"

subsection \<open>State, remote gateway and exceptions\<close>

text \<open>
  The React state of the provider.  A function of the provider reads the state through
  the closure of the render that created it (the snapshot \<open>snap\<close> below) and writes
  through the setters; functional setters (\<open>setTasks(prev => ...)\<close>) act on the current
  state.  The world adds the state of the remote store and the clock.  Notifications
  and console output are not modelled.
\<close>

record store =
  projects :: "project list"
  sprints :: "sprint list"
  tasks :: "task list"
  burndownData :: "string \<rightharpoonup> burndownData list"
  isLoading :: bool
  lastFetchTime :: "string \<rightharpoonup> millis"
  fetchErrors :: "string \<rightharpoonup> bool"

record 'r world = store +
  remote :: 'r
  clock :: millis

datatype error = NotAuthenticated | NotFound string | RemoteError string

text \<open>
  The answer \<open>{ data, error }\<close> of a read, after the retry wrapper: an error, or the data
  (possibly \<open>null\<close>).  A write answers with an optional error.
\<close>

datatype 'a reply = Failed string | Reply "'a option"

text \<open>The fields of the \<open>update\<close> sent for a task; \<open>completion_date\<close> only when supplied.\<close>

record task_update =
  tu_title :: "string option"
  tu_description :: "string option"
  tu_status :: "string option"
  tu_assign_to :: "string option"
  tu_story_points :: "rat option"
  tu_priority :: "string option"
  tu_completion_date :: "day option option"

text \<open>
  The remote gateway is a parameter: any deterministic behaviour over a state \<open>'r\<close> of
  its own.  Each field is one request of the source, named after its table and filter.
\<close>

record 'r gateway =
  selectProjects :: "string \<Rightarrow> 'r \<Rightarrow> project_row list reply \<times> 'r"
  selectCollaborators :: "string \<Rightarrow> 'r \<Rightarrow> collab_row list reply \<times> 'r"
  selectSprints :: "string \<Rightarrow> 'r \<Rightarrow> sprint_row list reply \<times> 'r"
  selectTasksBySprint :: "string \<Rightarrow> 'r \<Rightarrow> task_row list reply \<times> 'r"
  selectBacklogTasks :: "string \<Rightarrow> 'r \<Rightarrow> task_row list reply \<times> 'r"
  selectBoardColumns :: "string \<Rightarrow> 'r \<Rightarrow> string list reply \<times> 'r"
  deleteBoardColumn :: "string \<Rightarrow> 'r \<Rightarrow> string option \<times> 'r"
  deleteTasksOfSprint :: "string \<Rightarrow> 'r \<Rightarrow> string option \<times> 'r"
  deleteSprintRow :: "string \<Rightarrow> 'r \<Rightarrow> string option \<times> 'r"
  deleteBacklogOfProject :: "string \<Rightarrow> 'r \<Rightarrow> string option \<times> 'r"
  deleteProjectRow :: "string \<Rightarrow> string \<Rightarrow> 'r \<Rightarrow> string option \<times> 'r"
  updateTaskRow :: "string \<Rightarrow> task_update \<Rightarrow> 'r \<Rightarrow> string option \<times> 'r"
  updateTaskCompletion :: "string \<Rightarrow> day \<Rightarrow> 'r \<Rightarrow> string option \<times> 'r"

text \<open>The authenticated user, by identifier; \<open>None\<close> when nobody is logged in.\<close>

type_synonym user = string

text \<open>
  An asynchronous function returns its value or raises, and leaves a world behind in
  both cases.
\<close>

type_synonym ('a, 'r) outcome = "(error + 'a) \<times> 'r world"

definition andThen ::
  "('a, 'r) outcome \<Rightarrow> ('a \<Rightarrow> 'r world \<Rightarrow> ('b, 'r) outcome) \<Rightarrow> ('b, 'r) outcome" where
  "andThen m f = (case m of (Inl e, w) \<Rightarrow> (Inl e, w) | (Inr v, w) \<Rightarrow> f v w)"

text \<open>\<open>try { body } catch (error) { handler }\<close> and \<open>finally\<close>.\<close>

definition tryCatch ::
  "('a, 'r) outcome \<Rightarrow> (error \<Rightarrow> 'r world \<Rightarrow> ('a, 'r) outcome) \<Rightarrow> ('a, 'r) outcome" where
  "tryCatch body handler = (case body of (Inl e, w) \<Rightarrow> handler e w | (Inr v, w) \<Rightarrow> (Inr v, w))"

definition finallyDo :: "('a, 'r) outcome \<Rightarrow> ('r world \<Rightarrow> 'r world) \<Rightarrow> ('a, 'r) outcome" where
  "finallyDo m f = (case m of (res, w) \<Rightarrow> (res, f w))"

text \<open>\<open>for (const x of xs) { await f(x) }\<close>: stops at the first exception.\<close>

fun forEach :: "('a \<Rightarrow> 'r world \<Rightarrow> (unit, 'r) outcome) \<Rightarrow> 'a list \<Rightarrow> 'r world \<Rightarrow> (unit, 'r) outcome" where
  "forEach f [] w = (Inr (), w)"
| "forEach f (x # xs) w = andThen (f x w) (\<lambda>_. forEach f xs)"

text \<open>
  A read followed by \<open>if (error) throw error\<close>, and a write followed by the same check.
\<close>

definition query :: "('r \<Rightarrow> 'a reply \<times> 'r) \<Rightarrow> 'r world \<Rightarrow> ('a option, 'r) outcome" where
  "query q w =
     (case q (remote w) of
        (Failed e, r) \<Rightarrow> (Inl (RemoteError e), w\<lparr>remote := r\<rparr>)
      | (Reply d, r) \<Rightarrow> (Inr d, w\<lparr>remote := r\<rparr>))"

definition command :: "('r \<Rightarrow> string option \<times> 'r) \<Rightarrow> 'r world \<Rightarrow> (unit, 'r) outcome" where
  "command c w =
     (case c (remote w) of
        (Some e, r) \<Rightarrow> (Inl (RemoteError e), w\<lparr>remote := r\<rparr>)
      | (None, r) \<Rightarrow> (Inr (), w\<lparr>remote := r\<rparr>))"

definition delay :: "millis \<Rightarrow> 'r world \<Rightarrow> (unit, 'r) outcome" where
  "delay ms w = (Inr (), w\<lparr>clock := clock w + ms\<rparr>)"

subsection \<open>Freshness bookkeeping\<close>

text \<open>\<open>shouldRefetch(key, maxAge = 60000)\<close>, with \<open>lastFetchTime[key] || 0\<close>.\<close>

definition shouldRefetch :: "'s store_scheme \<Rightarrow> millis \<Rightarrow> string \<Rightarrow> millis \<Rightarrow> bool" where
  "shouldRefetch snap now key maxAge =
     (let lastFetch = (case lastFetchTime snap key of None \<Rightarrow> 0 | Some t \<Rightarrow> t)
      in maxAge < now - lastFetch)"

definition updateFetchTime :: "string \<Rightarrow> 'r world \<Rightarrow> 'r world" where
  "updateFetchTime key w =
     w\<lparr> lastFetchTime := (lastFetchTime w)(key \<mapsto> clock w),
        fetchErrors := (fetchErrors w)(key \<mapsto> False) \<rparr>"

definition markFetchError :: "string \<Rightarrow> 'r world \<Rightarrow> 'r world" where
  "markFetchError key w = w\<lparr> fetchErrors := (fetchErrors w)(key \<mapsto> True) \<rparr>"

text \<open>The truth value of \<open>fetchErrors[key]\<close>.\<close>

definition errored :: "'s store_scheme \<Rightarrow> string \<Rightarrow> bool" where
  "errored snap key = (fetchErrors snap key = Some True)"

subsection \<open>Fetch operations\<close>

text \<open>
  The cache test at the head of each fetch operation, without its \<open>forceRefresh\<close>
  conjunct: the key is fresh, the cache holds something of the scope, and the key is not
  flagged as errored.  \<open>now\<close> is \<open>Date.now()\<close> at the time of the call.
\<close>

definition projectsCacheHit :: "'s store_scheme \<Rightarrow> millis \<Rightarrow> bool" where
  "projectsCacheHit snap now =
     (\<not> shouldRefetch snap now ''projects'' 60000 \<and> projects snap \<noteq> []
      \<and> \<not> errored snap ''projects'')"

definition sprintsCacheHit :: "'s store_scheme \<Rightarrow> millis \<Rightarrow> string \<Rightarrow> bool" where
  "sprintsCacheHit snap now projectId =
     (\<not> shouldRefetch snap now (''sprints-'' @ projectId) 60000
      \<and> list_ex (\<lambda>s. s_projectId s = projectId) (sprints snap)
      \<and> \<not> errored snap (''sprints-'' @ projectId))"

definition tasksCacheHit :: "'s store_scheme \<Rightarrow> millis \<Rightarrow> string \<Rightarrow> bool" where
  "tasksCacheHit snap now sprintId =
     (\<not> shouldRefetch snap now (''tasks-sprint-'' @ sprintId) 60000
      \<and> list_ex (\<lambda>t. t_sprintId t = sprintId) (tasks snap)
      \<and> \<not> errored snap (''tasks-sprint-'' @ sprintId))"

definition backlogCacheHit :: "'s store_scheme \<Rightarrow> millis \<Rightarrow> string \<Rightarrow> bool" where
  "backlogCacheHit snap now projectId =
     (\<not> shouldRefetch snap now (''backlog-'' @ projectId) 60000
      \<and> list_ex (\<lambda>t. t_projectId t = Some projectId \<and> t_status t = ''backlog''
                       \<and> t_sprintId t = []) (tasks snap)
      \<and> \<not> errored snap (''backlog-'' @ projectId))"

definition collaborationsCacheHit :: "'s store_scheme \<Rightarrow> millis \<Rightarrow> bool" where
  "collaborationsCacheHit snap now =
     (\<not> shouldRefetch snap now ''collaborations'' 60000
      \<and> list_ex p_isCollaboration (projects snap)
      \<and> \<not> errored snap ''collaborations'')"

definition fetchTasksBySprint ::
  "'r gateway \<Rightarrow> user option \<Rightarrow> 's store_scheme \<Rightarrow> string \<Rightarrow> bool \<Rightarrow> 'r world
     \<Rightarrow> (unit, 'r) outcome" where
  "fetchTasksBySprint gw user snap sprintId forceRefresh w =
     (if user = None then (Inr (), w)
      else if \<not> forceRefresh \<and> tasksCacheHit snap (clock w) sprintId then (Inr (), w)
      else
        tryCatch
          (andThen (query (selectTasksBySprint gw sprintId) w)
             (\<lambda>data w1.
                case data of
                  None \<Rightarrow> (Inr (), w1)
                | Some rows \<Rightarrow>
                    (Inr (),
                     updateFetchTime (''tasks-sprint-'' @ sprintId)
                       (w1\<lparr> tasks := filter (\<lambda>t. t_sprintId t \<noteq> sprintId) (tasks w1)
                                       @ map formatSprintTask rows \<rparr>))))
          (\<lambda>e w'. (Inr (), markFetchError (''tasks-sprint-'' @ sprintId) w')))"

definition fetchBacklogTasks ::
  "'r gateway \<Rightarrow> user option \<Rightarrow> 's store_scheme \<Rightarrow> string \<Rightarrow> bool \<Rightarrow> 'r world
     \<Rightarrow> (unit, 'r) outcome" where
  "fetchBacklogTasks gw user snap projectId forceRefresh w =
     (if user = None then (Inr (), w)
      else if \<not> forceRefresh \<and> backlogCacheHit snap (clock w) projectId then (Inr (), w)
      else
        tryCatch
          (andThen (query (selectBacklogTasks gw projectId) w)
             (\<lambda>data w1.
                case data of
                  None \<Rightarrow> (Inr (), w1)
                | Some rows \<Rightarrow>
                    (Inr (),
                     updateFetchTime (''backlog-'' @ projectId)
                       (w1\<lparr> tasks :=
                              filter (\<lambda>t. \<not> (t_status t = ''backlog''
                                              \<and> t_projectId t = Some projectId
                                              \<and> t_sprintId t = [])) (tasks w1)
                              @ map formatBacklogTask rows \<rparr>))))
          (\<lambda>e w'. (Inr (), markFetchError (''backlog-'' @ projectId) w')))"

definition fetchSprints ::
  "'r gateway \<Rightarrow> user option \<Rightarrow> 's store_scheme \<Rightarrow> string \<Rightarrow> bool \<Rightarrow> 'r world
     \<Rightarrow> (unit, 'r) outcome" where
  "fetchSprints gw user snap projectId forceRefresh w =
     (if user = None then (Inr (), w)
      else if \<not> forceRefresh \<and> sprintsCacheHit snap (clock w) projectId then (Inr (), w)
      else
        tryCatch
          (andThen (query (selectSprints gw projectId) w)
             (\<lambda>data w1.
                case data of
                  None \<Rightarrow> (Inr (), w1)
                | Some rows \<Rightarrow>
                    let formattedSprints = map formatSprint rows;
                        w2 = updateFetchTime (''sprints-'' @ projectId)
                               (w1\<lparr> sprints := filter (\<lambda>s. s_projectId s \<noteq> projectId) (sprints w1)
                                                  @ formattedSprints \<rparr>)
                    in forEach
                         (\<lambda>sprint w3.
                            andThen (fetchTasksBySprint gw user snap (s_id sprint) forceRefresh w3)
                              (\<lambda>_. delay 300))
                         formattedSprints w2))
          (\<lambda>e w'. (Inr (), markFetchError (''sprints-'' @ projectId) w')))"

text \<open>The fan-out of \<open>fetchProjects\<close> and \<open>fetchCollaborativeProjects\<close> over one project.\<close>

definition fetchProjectScope ::
  "'r gateway \<Rightarrow> user option \<Rightarrow> 's store_scheme \<Rightarrow> project \<Rightarrow> 'r world \<Rightarrow> (unit, 'r) outcome" where
  "fetchProjectScope gw user snap project w =
     andThen (fetchSprints gw user snap (p_id project) False w)
       (\<lambda>_ w1. andThen (delay 500 w1)
          (\<lambda>_ w2. andThen (fetchBacklogTasks gw user snap (p_id project) False w2)
             (\<lambda>_. delay 500)))"

definition fetchProjects ::
  "'r gateway \<Rightarrow> user option \<Rightarrow> 's store_scheme \<Rightarrow> 'r world \<Rightarrow> (unit, 'r) outcome" where
  "fetchProjects gw user snap w =
     (case user of
        None \<Rightarrow> (Inr (), w)
      | Some uid \<Rightarrow>
          if isLoading snap then (Inr (), w)
          else if projectsCacheHit snap (clock w) then (Inr (), w)
          else
            finallyDo
              (tryCatch
                 (andThen (query (selectProjects gw uid) (w\<lparr>isLoading := True\<rparr>))
                    (\<lambda>data w1.
                       case data of
                         None \<Rightarrow> (Inr (), w1)
                       | Some rows \<Rightarrow>
                           let formattedProjects = map formatProject rows;
                               w2 = updateFetchTime ''projects'' (w1\<lparr>projects := formattedProjects\<rparr>)
                           in forEach (fetchProjectScope gw user snap) formattedProjects w2))
                 (\<lambda>e w'. (Inr (), markFetchError ''projects'' w')))
              (\<lambda>w'. w'\<lparr>isLoading := False\<rparr>))"

definition fetchCollaborativeProjects ::
  "'r gateway \<Rightarrow> user option \<Rightarrow> 's store_scheme \<Rightarrow> 'r world \<Rightarrow> (unit, 'r) outcome" where
  "fetchCollaborativeProjects gw user snap w =
     (case user of
        None \<Rightarrow> (Inr (), w)
      | Some uid \<Rightarrow>
          if isLoading snap then (Inr (), w)
          else if collaborationsCacheHit snap (clock w) then (Inr (), w)
          else
            tryCatch
              (andThen (query (selectCollaborators gw uid) w)
                 (\<lambda>data w1.
                    case data of
                      None \<Rightarrow> (Inr (), w1)
                    | Some rows \<Rightarrow>
                        if rows = [] then (Inr (), w1)
                        else
                          let collaborativeProjects =
                                concat (map (\<lambda>item. case cr_projects item of
                                                       None \<Rightarrow> []
                                                     | Some project \<Rightarrow>
                                                         [formatCollaboration (cr_role item) project])
                                          rows);
                              w2 = updateFetchTime ''collaborations''
                                     (w1\<lparr> projects := filter (\<lambda>p. \<not> p_isCollaboration p) (projects w1)
                                                        @ collaborativeProjects \<rparr>)
                          in forEach (fetchProjectScope gw user snap) collaborativeProjects w2))
              (\<lambda>e w'. (Inr (), markFetchError ''collaborations'' w')))"

text \<open>A string that JavaScript takes for true: present and not empty.\<close>

definition truthy :: "string option \<Rightarrow> string option" where
  "truthy x = (case x of None \<Rightarrow> None | Some s \<Rightarrow> if s = [] then None else Some s)"

text \<open>
  \<open>refreshProjectData(projectId?)\<close>.  The object \<open>newFetchTime\<close> is handed to
  \<open>setLastFetchTime\<close> once; its later in-place \<open>delete\<close> of the sprint keys is not written
  to the state again and has no counterpart here.
\<close>

definition refreshProjectData ::
  "'r gateway \<Rightarrow> user option \<Rightarrow> 's store_scheme \<Rightarrow> string option \<Rightarrow> 'r world
     \<Rightarrow> (unit, 'r) outcome" where
  "refreshProjectData gw user snap projectId w =
     (if user = None then (Inr (), w)
      else
        tryCatch
          (case truthy projectId of
             Some pid \<Rightarrow>
               let newFetchTime =
                     (lastFetchTime snap)(''sprints-'' @ pid := None, ''backlog-'' @ pid := None);
                   w1 = w\<lparr>lastFetchTime := newFetchTime\<rparr>
               in andThen (fetchSprints gw user snap pid True w1)
                    (\<lambda>_ w2. andThen (fetchBacklogTasks gw user snap pid True w2)
                       (\<lambda>_ w3.
                          forEach (\<lambda>sprint. fetchTasksBySprint gw user snap (s_id sprint) True)
                            (filter (\<lambda>s. s_projectId s = pid) (sprints snap)) w3))
           | None \<Rightarrow>
               andThen (fetchProjects gw user snap (w\<lparr>lastFetchTime := Map.empty\<rparr>))
                 (\<lambda>_ w2. fetchCollaborativeProjects gw user snap w2))
          (\<lambda>e w'. (Inr (), w')))"

subsection \<open>Mutations\<close>

definition deleteSprint ::
  "'r gateway \<Rightarrow> user option \<Rightarrow> 's store_scheme \<Rightarrow> string \<Rightarrow> 'r world \<Rightarrow> (unit, 'r) outcome" where
  "deleteSprint gw user snap ident w =
     (if user = None then (Inl NotAuthenticated, w)
      else
        tryCatch
          (let projectId = map_option s_projectId (find (\<lambda>s. s_id s = ident) (sprints snap))
           in andThen (query (selectBoardColumns gw ident) w)
                (\<lambda>columnsData w1.
                   andThen
                     (case columnsData of
                        None \<Rightarrow> (Inr (), w1)
                      | Some columns \<Rightarrow>
                          forEach (\<lambda>column. command (deleteBoardColumn gw column)) columns w1)
                     (\<lambda>_ w2.
                        andThen (command (deleteTasksOfSprint gw ident) w2)
                          (\<lambda>_ w3.
                             andThen (command (deleteSprintRow gw ident) w3)
                               (\<lambda>_ w4.
                                  let w5 = w4\<lparr> sprints := filter (\<lambda>s. s_id s \<noteq> ident) (sprints w4),
                                                tasks := filter (\<lambda>t. t_sprintId t \<noteq> ident) (tasks w4) \<rparr>
                                  in case truthy projectId of
                                       None \<Rightarrow> (Inr (), w5)
                                     | Some pid \<Rightarrow> refreshProjectData gw user snap (Some pid) w5)))))
          (\<lambda>e w'. (Inl e, w')))"

definition deleteProject ::
  "'r gateway \<Rightarrow> user option \<Rightarrow> 's store_scheme \<Rightarrow> string \<Rightarrow> 'r world \<Rightarrow> (unit, 'r) outcome" where
  "deleteProject gw user snap ident w =
     (case user of
        None \<Rightarrow> (Inl NotAuthenticated, w)
      | Some uid \<Rightarrow>
          tryCatch
            (let sprintIds = map s_id (filter (\<lambda>s. s_projectId s = ident) (sprints snap))
             in andThen (forEach (deleteSprint gw user snap) sprintIds w)
                  (\<lambda>_ w1.
                     andThen (command (deleteBacklogOfProject gw ident) w1)
                       (\<lambda>_ w2.
                          andThen (command (deleteProjectRow gw ident uid) w2)
                            (\<lambda>_ w3.
                               (Inr (),
                                w3\<lparr> projects := filter (\<lambda>p. p_id p \<noteq> ident) (projects w3),
                                    sprints := filter (\<lambda>s. s_projectId s \<noteq> ident) (sprints w3),
                                    tasks := filter (\<lambda>t. t_sprintId t \<notin> set sprintIds
                                                         \<and> t_projectId t \<noteq> Some ident) (tasks w3),
                                    burndownData := (burndownData w3)(ident := None) \<rparr>)))))
            (\<lambda>e w'. (Inl e, w')))"

text \<open>
  \<open>Partial<Omit<Task, "id">>\<close>: \<open>None\<close> is an absent key.  For an optional field of \<open>Task\<close>
  a present key may carry \<open>undefined\<close> (\<open>Some None\<close>).
\<close>

record task_patch =
  tp_title :: "string option"
  tp_description :: "string option option"
  tp_sprintId :: "string option"
  tp_status :: "string option"
  tp_assignedTo :: "string option option"
  tp_storyPoints :: "rat option option"
  tp_priority :: "string option option"
  tp_createdAt :: "millis option"
  tp_updatedAt :: "millis option"
  tp_projectId :: "string option option"
  tp_completionDate :: "day option option"

definition orKeep :: "'a option \<Rightarrow> 'a \<Rightarrow> 'a" where
  "orKeep new old = (case new of None \<Rightarrow> old | Some v \<Rightarrow> v)"

text \<open>The spread \<open>{ ...existingTask, ...task }\<close>.\<close>

definition applyPatch :: "task \<Rightarrow> task_patch \<Rightarrow> task" where
  "applyPatch t p =
     \<lparr> t_id = t_id t,
       t_title = orKeep (tp_title p) (t_title t),
       t_description = orKeep (tp_description p) (t_description t),
       t_sprintId = orKeep (tp_sprintId p) (t_sprintId t),
       t_status = orKeep (tp_status p) (t_status t),
       t_assignedTo = orKeep (tp_assignedTo p) (t_assignedTo t),
       t_storyPoints = orKeep (tp_storyPoints p) (t_storyPoints t),
       t_priority = orKeep (tp_priority p) (t_priority t),
       t_createdAt = orKeep (tp_createdAt p) (t_createdAt t),
       t_updatedAt = orKeep (tp_updatedAt p) (t_updatedAt t),
       t_projectId = orKeep (tp_projectId p) (t_projectId t),
       t_completionDate = orKeep (tp_completionDate p) (t_completionDate t) \<rparr>"

text \<open>The value of an optional key: \<open>undefined\<close> when the key is absent.\<close>

definition valueOf :: "'a option option \<Rightarrow> 'a option" where
  "valueOf x = (case x of None \<Rightarrow> None | Some v \<Rightarrow> v)"

definition updateData :: "task_patch \<Rightarrow> task_update" where
  "updateData p =
     \<lparr> tu_title = tp_title p, tu_description = valueOf (tp_description p),
       tu_status = tp_status p, tu_assign_to = valueOf (tp_assignedTo p),
       tu_story_points = valueOf (tp_storyPoints p), tu_priority = valueOf (tp_priority p),
       tu_completion_date = tp_completionDate p \<rparr>"

text \<open>\<open>new Date().toISOString().split('T')[0]\<close>, as a day number.\<close>

definition utcDay :: "millis \<Rightarrow> day" where
  "utcDay ms = ms div 86400000"

text \<open>
  The record \<open>updatedTask\<close> that \<open>updateTask\<close> caches and returns, in the three steps
  of the source: the merge with the refreshed \<open>updatedAt\<close> and the preserved completion
  date; the test for the first transition into \<open>done\<close>; the stamp with today's date.
\<close>

definition mergedTask :: "task \<Rightarrow> task_patch \<Rightarrow> millis \<Rightarrow> task" where
  "mergedTask existingTask p now =
     (let merged = (applyPatch existingTask p)\<lparr>t_updatedAt := now\<rparr>
      in if tp_completionDate p = None \<and> t_completionDate existingTask \<noteq> None
         then merged\<lparr>t_completionDate := t_completionDate existingTask\<rparr>
         else merged)"

definition stampsCompletion :: "task \<Rightarrow> task_patch \<Rightarrow> millis \<Rightarrow> bool" where
  "stampsCompletion existingTask p now =
     (tp_status p = Some ''done'' \<and> t_status existingTask \<noteq> ''done''
      \<and> t_completionDate (mergedTask existingTask p now) = None)"

definition updatedTask :: "task \<Rightarrow> task_patch \<Rightarrow> millis \<Rightarrow> task" where
  "updatedTask existingTask p now =
     (if stampsCompletion existingTask p now
      then (mergedTask existingTask p now)\<lparr>t_completionDate := Some (utcDay now)\<rparr>
      else mergedTask existingTask p now)"

definition relocated :: "task \<Rightarrow> task_patch \<Rightarrow> bool" where
  "relocated existingTask p =
     (let movedToBacklog = (tp_status p = Some ''backlog'' \<and> t_status existingTask \<noteq> ''backlog'');
          movedFromBacklog = (tp_status p \<noteq> Some ''backlog'' \<and> t_status existingTask = ''backlog'');
          sprintChanged = (case tp_sprintId p of None \<Rightarrow> False
                           | Some s \<Rightarrow> s \<noteq> t_sprintId existingTask)
      in sprintChanged \<or> movedToBacklog \<or> movedFromBacklog)"

definition updateTask ::
  "'r gateway \<Rightarrow> user option \<Rightarrow> 's store_scheme \<Rightarrow> string \<Rightarrow> task_patch \<Rightarrow> 'r world
     \<Rightarrow> (task, 'r) outcome" where
  "updateTask gw user snap ident p w =
     (if user = None then (Inl NotAuthenticated, w)
      else
        tryCatch
          (case find (\<lambda>t. t_id t = ident) (tasks snap) of
             None \<Rightarrow> (Inl (NotFound ''Task not found''), w)
           | Some existingTask \<Rightarrow>
               andThen (command (updateTaskRow gw ident (updateData p)) w)
                 (\<lambda>_ w1.
                    let new = updatedTask existingTask p (clock w1);
                        w2 = (if stampsCompletion existingTask p (clock w1)
                              then w1\<lparr>remote :=
                                       snd (updateTaskCompletion gw ident (utcDay (clock w1)) (remote w1))\<rparr>
                              else w1);
                        w3 = w2\<lparr>tasks := map (\<lambda>t. if t_id t = ident then new else t) (tasks w2)\<rparr>
                    in andThen
                         (if relocated existingTask p
                          then (case truthy (t_projectId existingTask) of
                                  None \<Rightarrow> (Inr (), w3)
                                | Some pid \<Rightarrow>
                                    andThen
                                      (if t_sprintId existingTask \<noteq> []
                                       then fetchTasksBySprint gw user snap (t_sprintId existingTask) True w3
                                       else (Inr (), w3))
                                      (\<lambda>_ w4.
                                         andThen
                                           (case truthy (tp_sprintId p) of
                                              None \<Rightarrow> (Inr (), w4)
                                            | Some sid \<Rightarrow> fetchTasksBySprint gw user snap sid True w4)
                                           (\<lambda>_. fetchBacklogTasks gw user snap pid True)))
                          else (Inr (), w3))
                         (\<lambda>_ w6. (Inr new, w6))))
          (\<lambda>e w'. (Inl e, w')))"

section \<open>Vocabulary of the burndown properties\<close>





definition doneBy :: "day \<Rightarrow> task \<Rightarrow> bool" where
  "doneBy d t =
     (t_status t = ''done'' \<and> (case t_completionDate t of None \<Rightarrow> False | Some c \<Rightarrow> c \<le> d))"

section \<open>Vocabulary of the store properties\<close>

text \<open>An operation that never raises, and one that keeps an observation of the world.\<close>

definition neverRaises :: "('r world \<Rightarrow> (unit, 'r) outcome) \<Rightarrow> bool" where
  "neverRaises f = (\<forall>w. fst (f w) = Inr ())"

definition keeps :: "('r world \<Rightarrow> 'b) \<Rightarrow> ('r world \<Rightarrow> ('a, 'r) outcome) \<Rightarrow> bool" where
  "keeps g f = (\<forall>w. g (snd (f w)) = g w)"

text \<open>
  The world after a fetch that failed on the key: the cached entities, the burndown store
  and the fetch times are as before, and the key is flagged.
\<close>

definition failedFetch :: "string \<Rightarrow> 'r world \<Rightarrow> 'r world \<Rightarrow> bool" where
  "failedFetch key w w' =
     (projects w' = projects w \<and> sprints w' = sprints w \<and> tasks w' = tasks w
      \<and> burndownData w' = burndownData w \<and> lastFetchTime w' = lastFetchTime w
      \<and> fetchErrors w' = (fetchErrors w)(key \<mapsto> True))"

text \<open>The sprints of the project that the closure of \<open>deleteProject\<close> sees.\<close>

definition cascadeSprintIds :: "'s store_scheme \<Rightarrow> string \<Rightarrow> string list" where
  "cascadeSprintIds snap ident = map s_id (filter (\<lambda>s. s_projectId s = ident) (sprints snap))"

section \<open>Example data\<close>

text \<open>
  Project "Alpha": one sprint from 2024-01-01 (day 19723) to 2024-01-07 (day 19729).
  Task A (5 points) was completed on 2024-01-03, task B (3 points) is open.
\<close>

definition alphaSprints :: "sprint list" where
  "alphaSprints =
     [\<lparr> s_id = ''s1'', s_title = ''Sprint 1'', s_description = [], s_projectId = ''alpha'',
        s_startDate = 19723, s_endDate = 19729, s_status = ''in-progress'' \<rparr>]"

definition alphaTask :: "string \<Rightarrow> string \<Rightarrow> string \<Rightarrow> rat \<Rightarrow> day option \<Rightarrow> task" where
  "alphaTask ident sprintId st pts completed =
     \<lparr> t_id = ident, t_title = ident, t_description = None, t_sprintId = sprintId,
       t_status = st, t_assignedTo = None, t_storyPoints = Some pts, t_priority = None,
       t_createdAt = 0, t_updatedAt = 0, t_projectId = Some ''alpha'',
       t_completionDate = completed \<rparr>"

definition alphaTasks :: "task list" where
  "alphaTasks =
     [alphaTask ''A'' ''s1'' ''done'' 5 (Some 19725),
      alphaTask ''B'' ''s1'' ''todo'' 3 None]"

text \<open>A backlog task of the same project: done, with points, completed inside the span.\<close>

definition alphaBacklog :: task where
  "alphaBacklog = alphaTask ''C'' [] ''done'' 8 (Some 19724)"


text \<open>A single task completed three days before the first sprint starts.\<close>

definition earlyTasks :: "task list" where
  "earlyTasks = [alphaTask ''E'' ''s1'' ''done'' 5 (Some 19720)]"

text \<open>
  A session of user \<open>u\<close> on 2024-01-05 (day 19727), 01:00 UTC: the own project Alpha with
  its sprint and tasks, a collaboration Gamma, and a sprint of a third project.  Nothing
  has been fetched yet.
\<close>

definition alphaProject :: project where
  "alphaProject =
     \<lparr> p_id = ''alpha'', p_title = ''Alpha'', p_description = [], p_endGoal = None,
       p_createdAt = 0, p_updatedAt = 0, p_ownerId = Some ''u'', p_ownerName = Some ''ann'',
       p_ownerEmail = Some [], p_isCollaboration = False, p_role = None \<rparr>"

definition gammaProject :: project where
  "gammaProject =
     alphaProject \<lparr> p_id := ''gamma'', p_title := ''Gamma'', p_ownerId := Some ''v'',
       p_isCollaboration := True, p_role := Some ''member'' \<rparr>"

definition betaSprint :: sprint where
  "betaSprint =
     \<lparr> s_id = ''s7'', s_title = ''Sprint 7'', s_description = [], s_projectId = ''beta'',
       s_startDate = 19730, s_endDate = 19743, s_status = ''planned'' \<rparr>"

definition alphaWorld :: "unit world" where
  "alphaWorld =
     \<lparr> projects = [alphaProject, gammaProject],
       sprints = alphaSprints @ [betaSprint],
       tasks = alphaTasks,
       burndownData = [''alpha'' \<mapsto> []],
       isLoading = False,
       lastFetchTime = Map.empty,
       fetchErrors = Map.empty,
       remote = (),
       clock = 1704416400000 \<rparr>"

text \<open>
  Three stateless gateways: one that answers every read with no rows and accepts every
  write, one whose reads all fail, and one that refuses to delete backlog tasks.
\<close>

definition quietGateway :: "unit gateway" where
  "quietGateway =
     \<lparr> selectProjects = (\<lambda>_ r. (Reply (Some []), r)),
       selectCollaborators = (\<lambda>_ r. (Reply (Some []), r)),
       selectSprints = (\<lambda>_ r. (Reply (Some []), r)),
       selectTasksBySprint = (\<lambda>_ r. (Reply (Some []), r)),
       selectBacklogTasks = (\<lambda>_ r. (Reply (Some []), r)),
       selectBoardColumns = (\<lambda>_ r. (Reply (Some []), r)),
       deleteBoardColumn = (\<lambda>_ r. (None, r)),
       deleteTasksOfSprint = (\<lambda>_ r. (None, r)),
       deleteSprintRow = (\<lambda>_ r. (None, r)),
       deleteBacklogOfProject = (\<lambda>_ r. (None, r)),
       deleteProjectRow = (\<lambda>_ _ r. (None, r)),
       updateTaskRow = (\<lambda>_ _ r. (None, r)),
       updateTaskCompletion = (\<lambda>_ _ r. (None, r)) \<rparr>"

definition offlineGateway :: "unit gateway" where
  "offlineGateway =
     quietGateway
       \<lparr> selectProjects := (\<lambda>_ r. (Failed ''offline'', r)),
         selectCollaborators := (\<lambda>_ r. (Failed ''offline'', r)),
         selectSprints := (\<lambda>_ r. (Failed ''offline'', r)),
         selectTasksBySprint := (\<lambda>_ r. (Failed ''offline'', r)),
         selectBacklogTasks := (\<lambda>_ r. (Failed ''offline'', r)) \<rparr>"

definition backlogFailGateway :: "unit gateway" where
  "backlogFailGateway =
     quietGateway \<lparr> deleteBacklogOfProject := (\<lambda>_ r. (Some ''offline'', r)) \<rparr>"

text \<open>
  Updates of a task: to \<open>done\<close>, and to \<open>done\<close> with an explicit completion date
  (2022-01-08, day 19000).
\<close>

definition emptyPatch :: task_patch where
  "emptyPatch =
     \<lparr> tp_title = None, tp_description = None, tp_sprintId = None, tp_status = None,
       tp_assignedTo = None, tp_storyPoints = None, tp_priority = None, tp_createdAt = None,
       tp_updatedAt = None, tp_projectId = None, tp_completionDate = None \<rparr>"

definition donePatch :: task_patch where
  "donePatch = emptyPatch \<lparr> tp_status := Some ''done'' \<rparr>"

definition backdatedPatch :: task_patch where
  "backdatedPatch = donePatch \<lparr> tp_completionDate := Some (Some 19000) \<rparr>"


section \<open>Burndown generation: auxiliary facts\<close>

lemma floor_rat_numeral_div:
  "\<lfloor>numeral a / numeral b :: rat\<rfloor> = numeral a div numeral b"
  by (metis floor_divide_of_int_eq of_int_numeral)

























lemma getTasksBySprint_inSprint:
  "sid \<noteq> [] \<Longrightarrow>
   getTasksBySprint (filter (\<lambda>t. t_sprintId t \<noteq> []) allTasks) sid = getTasksBySprint allTasks sid"
  unfolding getTasksBySprint_def filter_filter
  by (rule filter_cong) auto

lemma projectTasks_inSprint:
  assumes "\<forall>s \<in> set (getSprintsByProject allSprints p). s_id s \<noteq> []"
  shows "projectTasks allSprints (filter (\<lambda>t. t_sprintId t \<noteq> []) allTasks) p = projectTasks allSprints allTasks p"
proof -
  have "map (\<lambda>s. getTasksBySprint (filter (\<lambda>t. t_sprintId t \<noteq> []) allTasks) (s_id s))
            (getSprintsByProject allSprints p)
      = map (\<lambda>s. getTasksBySprint allTasks (s_id s)) (getSprintsByProject allSprints p)"
  proof (rule map_cong [OF refl])
    fix s assume "s \<in> set (getSprintsByProject allSprints p)"
    with assms have "s_id s \<noteq> []" by blast
    then show "getTasksBySprint (filter (\<lambda>t. t_sprintId t \<noteq> []) allTasks) (s_id s)
               = getTasksBySprint allTasks (s_id s)"
      by (rule getTasksBySprint_inSprint)
  qed
  then show ?thesis unfolding projectTasks_def by (rule arg_cong)
qed

lemma generateBurndownData_cong:
  assumes "projectTasks allSprints allTasks p = projectTasks allSprints allTasks' p"
  shows "generateBurndownData allSprints allTasks p today = generateBurndownData allSprints allTasks' p today"
proof -
  have "tasksWithPoints allSprints allTasks p = tasksWithPoints allSprints allTasks' p"
    by (simp add: tasksWithPoints_def assms)
  then show ?thesis by (simp only: generateBurndownData_def)
qed




section \<open>Burndown generation: properties\<close>





text \<open>
  C10.  The tasks of a project are gathered through its sprints only.  When no sprint of
  the project has the empty identifier (the sentinel of a task outside every sprint), two
  task caches that differ only in tasks with an empty \<open>sprintId\<close> give the same series
  and the same total of story points: a backlog task contributes to neither, whatever its
  points, status and completion date.
\<close>

theorem burndown_ignores_backlog:
  assumes "\<forall>s \<in> set (getSprintsByProject allSprints p). s_id s \<noteq> []"
      and "filter (\<lambda>t. t_sprintId t \<noteq> []) allTasks = filter (\<lambda>t. t_sprintId t \<noteq> []) allTasks'"
  shows "generateBurndownData allSprints allTasks p today = generateBurndownData allSprints allTasks' p today
       \<and> totalStoryPoints (tasksWithPoints allSprints allTasks p)
           = totalStoryPoints (tasksWithPoints allSprints allTasks' p)"
proof -
  have "projectTasks allSprints allTasks p = projectTasks allSprints allTasks' p"
    using projectTasks_inSprint [OF assms(1), of allTasks]
          projectTasks_inSprint [OF assms(1), of allTasks'] assms(2) by simp
  then show ?thesis
    using generateBurndownData_cong [of allSprints allTasks p allTasks' today]
    by (simp add: tasksWithPoints_def)
qed

theorem burndown_ignores_backlog_witness:
  "list_all (\<lambda>s. s_id s \<noteq> []) (getSprintsByProject alphaSprints ''alpha'')
   \<and> filter (\<lambda>t. t_sprintId t \<noteq> []) (alphaBacklog # alphaTasks)
       = filter (\<lambda>t. t_sprintId t \<noteq> []) alphaTasks
   \<and> hasPoints alphaBacklog \<and> doneBy 19724 alphaBacklog
   \<and> generateBurndownData alphaSprints (alphaBacklog # alphaTasks) ''alpha'' 19727
       = generateBurndownData alphaSprints alphaTasks ''alpha'' 19727
   \<and> totalStoryPoints (tasksWithPoints alphaSprints (alphaBacklog # alphaTasks) ''alpha'')
       = totalStoryPoints (tasksWithPoints alphaSprints alphaTasks ''alpha'')"
proof -
  have h1: "\<forall>s \<in> set (getSprintsByProject alphaSprints ''alpha''). s_id s \<noteq> []" by code_simp
  have h2: "filter (\<lambda>t. t_sprintId t \<noteq> []) (alphaBacklog # alphaTasks)
            = filter (\<lambda>t. t_sprintId t \<noteq> []) alphaTasks"
    by code_simp
  have h3: "hasPoints alphaBacklog" "doneBy 19724 alphaBacklog" by code_simp+
  from burndown_ignores_backlog [OF h1 h2, of 19727] h1 h2 h3
  show ?thesis by (simp add: list_all_iff)
qed




text \<open>
  The scan of completion days starts at the first day of the span: a task completed
  before it is never subtracted.
\<close>

lemma burndown_early_completion_not_subtracted:
  "doneBy 19723 (hd earlyTasks)
   \<and> map bd_actual (generateBurndownData alphaSprints earlyTasks ''alpha'' 19727)
       = [Some 5, Some 5, Some 5, Some 5, Some 5, None, None]"
  by code_simp

section \<open>The project store: auxiliary facts\<close>

lemma andThen_Inr [simp]: "andThen (Inr v, w) f = f v w"
  by (simp add: andThen_def)

lemma andThen_Inl [simp]: "andThen (Inl e, w) f = (Inl e, w)"
  by (simp add: andThen_def)

lemma tryCatch_Inr [simp]: "tryCatch (Inr v, w) h = (Inr v, w)"
  by (simp add: tryCatch_def)

lemma tryCatch_Inl [simp]: "tryCatch (Inl e, w) h = h e w"
  by (simp add: tryCatch_def)

lemma neverRaisesD: "neverRaises f \<Longrightarrow> f w = (Inr (), snd (f w))"
  by (metis neverRaises_def prod.collapse)

lemma neverRaises_andThen:
  assumes "neverRaises (\<lambda>w. m w)" "\<And>v. neverRaises (f v)"
  shows "neverRaises (\<lambda>w. andThen (m w) f)"
  unfolding neverRaises_def
proof
  fix w
  have "m w = (Inr (), snd (m w))" using assms(1) by (rule neverRaisesD)
  then have "andThen (m w) f = f () (snd (m w))" by (metis andThen_Inr)
  then show "fst (andThen (m w) f) = Inr ()" using assms(2) by (simp add: neverRaises_def)
qed

lemma keeps_andThen:
  assumes "keeps g m" "\<And>v. keeps g (f v)"
  shows "keeps g (\<lambda>w. andThen (m w) f)"
  unfolding keeps_def
proof
  fix w
  show "g (snd (andThen (m w) f)) = g w"
  proof (cases "m w")
    case (Pair res w1)
    then have "g w1 = g w" using assms(1) by (metis keeps_def snd_conv)
    then show ?thesis
      using Pair assms(2) by (cases res) (simp_all add: keeps_def)
  qed
qed

lemma neverRaises_forEach:
  assumes "\<And>x. neverRaises (f x)"
  shows "neverRaises (forEach f xs)"
proof (induction xs)
  case Nil
  then show ?case by (simp add: neverRaises_def)
next
  case (Cons x xs)
  have "neverRaises (\<lambda>w. andThen (f x w) (\<lambda>_. forEach f xs))"
    by (rule neverRaises_andThen) (simp_all add: assms Cons.IH)
  then show ?case by (simp add: neverRaises_def)
qed

lemma keeps_forEach:
  assumes "\<And>x. keeps g (f x)"
  shows "keeps g (forEach f xs)"
proof (induction xs)
  case Nil
  then show ?case by (simp add: keeps_def)
next
  case (Cons x xs)
  have "keeps g (\<lambda>w. andThen (f x w) (\<lambda>_. forEach f xs))"
    by (rule keeps_andThen) (simp_all add: assms Cons.IH)
  then show ?case by (simp add: keeps_def)
qed

lemma neverRaises_delay: "neverRaises (delay ms)"
  by (simp add: neverRaises_def delay_def)

lemma query_cases:
  obtains e r where "q (remote w) = (Failed e, r)" "query q w = (Inl (RemoteError e), w\<lparr>remote := r\<rparr>)"
  | d r where "q (remote w) = (Reply d, r)" "query q w = (Inr d, w\<lparr>remote := r\<rparr>)"
proof (cases "q (remote w)")
  case (Pair rep r)
  then show ?thesis
    using that by (cases rep) (simp_all add: query_def)
qed

lemma command_cases:
  obtains e r where "c (remote w) = (Some e, r)" "command c w = (Inl (RemoteError e), w\<lparr>remote := r\<rparr>)"
  | r where "c (remote w) = (None, r)" "command c w = (Inr (), w\<lparr>remote := r\<rparr>)"
proof (cases "c (remote w)")
  case (Pair rep r)
  then show ?thesis
    using that by (cases rep) (simp_all add: command_def)
qed

lemma neverRaises_fetchTasksBySprint: "neverRaises (fetchTasksBySprint gw user snap sid force)"
  unfolding neverRaises_def
proof
  fix w :: "'a world"
  show "fst (fetchTasksBySprint gw user snap sid force w) = Inr ()"
    by (cases rule: query_cases [of "selectTasksBySprint gw sid" w])
       (simp_all add: fetchTasksBySprint_def split: option.splits)
qed

lemma neverRaises_fetchBacklogTasks: "neverRaises (fetchBacklogTasks gw user snap pid force)"
  unfolding neverRaises_def
proof
  fix w :: "'a world"
  show "fst (fetchBacklogTasks gw user snap pid force w) = Inr ()"
    by (cases rule: query_cases [of "selectBacklogTasks gw pid" w])
       (simp_all add: fetchBacklogTasks_def split: option.splits)
qed

lemma keeps_delay:
  assumes "\<And>f w. g (clock_update f w) = g w"
  shows "keeps g (delay ms)"
  by (simp add: keeps_def delay_def assms)

lemma keeps_fetchTasksBySprint:
  fixes g :: "'r world \<Rightarrow> 'b"
  assumes "\<And>f w. g (remote_update f w) = g w"
      and "\<And>f w. g (tasks_update f w) = g w"
      and "\<And>f w. g (lastFetchTime_update f w) = g w"
      and "\<And>f w. g (fetchErrors_update f w) = g w"
  shows "keeps g (fetchTasksBySprint gw user snap sid force)"
  unfolding keeps_def
proof
  fix w :: "'r world"
  show "g (snd (fetchTasksBySprint gw user snap sid force w)) = g w"
    by (cases rule: query_cases [of "selectTasksBySprint gw sid" w])
       (simp_all add: fetchTasksBySprint_def updateFetchTime_def markFetchError_def assms
          split: option.splits)
qed

lemma keeps_fetchBacklogTasks:
  fixes g :: "'r world \<Rightarrow> 'b"
  assumes "\<And>f w. g (remote_update f w) = g w"
      and "\<And>f w. g (tasks_update f w) = g w"
      and "\<And>f w. g (lastFetchTime_update f w) = g w"
      and "\<And>f w. g (fetchErrors_update f w) = g w"
  shows "keeps g (fetchBacklogTasks gw user snap pid force)"
  unfolding keeps_def
proof
  fix w :: "'r world"
  show "g (snd (fetchBacklogTasks gw user snap pid force w)) = g w"
    by (cases rule: query_cases [of "selectBacklogTasks gw pid" w])
       (simp_all add: fetchBacklogTasks_def updateFetchTime_def markFetchError_def assms
          split: option.splits)
qed

text \<open>The loop of \<open>fetchSprints\<close> over the fetched sprints.\<close>

lemma neverRaises_sprintLoop:
  "neverRaises (forEach (\<lambda>sprint w3.
       andThen (fetchTasksBySprint gw user snap (s_id sprint) force w3) (\<lambda>_. delay 300)) xs)"
  by (intro neverRaises_forEach neverRaises_andThen neverRaises_fetchTasksBySprint
        neverRaises_delay)

lemma keeps_sprintLoop:
  fixes g :: "'r world \<Rightarrow> 'b"
  assumes "\<And>f w. g (remote_update f w) = g w"
      and "\<And>f w. g (tasks_update f w) = g w"
      and "\<And>f w. g (lastFetchTime_update f w) = g w"
      and "\<And>f w. g (fetchErrors_update f w) = g w"
      and "\<And>f w. g (clock_update f w) = g w"
  shows "keeps g (forEach (\<lambda>sprint w3.
       andThen (fetchTasksBySprint gw user snap (s_id sprint) force w3) (\<lambda>_. delay 300)) xs)"
  by (intro keeps_forEach keeps_andThen keeps_fetchTasksBySprint keeps_delay assms)

text \<open>What \<open>fetchSprints\<close> does once it has decided to read the remote.\<close>

lemma fetchSprints_failed:
  assumes "user \<noteq> None" "force \<or> \<not> sprintsCacheHit snap (clock w) pid"
      and "selectSprints gw pid (remote w) = (Failed e, r)"
  shows "fetchSprints gw user snap pid force w
         = (Inr (), markFetchError (''sprints-'' @ pid) (w\<lparr>remote := r\<rparr>))"
  using assms by (auto simp: fetchSprints_def query_def)

lemma fetchSprints_null:
  assumes "user \<noteq> None" "force \<or> \<not> sprintsCacheHit snap (clock w) pid"
      and "selectSprints gw pid (remote w) = (Reply None, r)"
  shows "fetchSprints gw user snap pid force w = (Inr (), w\<lparr>remote := r\<rparr>)"
  using assms by (auto simp: fetchSprints_def query_def)

lemma fetchSprints_rows:
  assumes "user \<noteq> None" "force \<or> \<not> sprintsCacheHit snap (clock w) pid"
      and "selectSprints gw pid (remote w) = (Reply (Some rows), r)"
  shows "fetchSprints gw user snap pid force w
         = (Inr (),
            snd (forEach (\<lambda>sprint w3.
                   andThen (fetchTasksBySprint gw user snap (s_id sprint) force w3) (\<lambda>_. delay 300))
                 (map formatSprint rows)
                 (updateFetchTime (''sprints-'' @ pid)
                    (w\<lparr> remote := r,
                        sprints := filter (\<lambda>s. s_projectId s \<noteq> pid) (sprints w)
                                   @ map formatSprint rows \<rparr>))))"
proof -
  let ?loop = "forEach (\<lambda>sprint w3.
       andThen (fetchTasksBySprint gw user snap (s_id sprint) force w3) (\<lambda>_. delay 300))
       (map formatSprint rows)"
  have loop: "?loop w' = (Inr (), snd (?loop w'))" for w'
    by (rule neverRaisesD [OF neverRaises_sprintLoop])
  have caught: "tryCatch (?loop w') h = (Inr (), snd (?loop w'))" for w' h
    by (subst loop) (rule tryCatch_Inr)
  show ?thesis
    using assms
    by (auto simp: fetchSprints_def query_def Let_def caught)
qed

lemma neverRaises_fetchSprints: "neverRaises (fetchSprints gw user snap pid force)"
  unfolding neverRaises_def
proof
  fix w :: "'a world"
  show "fst (fetchSprints gw user snap pid force w) = Inr ()"
  proof (cases "user \<noteq> None \<and> (force \<or> \<not> sprintsCacheHit snap (clock w) pid)")
    case False
    then show ?thesis by (auto simp: fetchSprints_def)
  next
    case True
    then have u: "user \<noteq> None" and c: "force \<or> \<not> sprintsCacheHit snap (clock w) pid" by auto
    obtain rep r where q: "selectSprints gw pid (remote w) = (rep, r)" by force
    show ?thesis
    proof (cases rep)
      case (Failed e)
      with fetchSprints_failed [OF u c] q show ?thesis by simp
    next
      case (Reply d)
      show ?thesis
      proof (cases d)
        case None
        with fetchSprints_null [OF u c] q Reply show ?thesis by simp
      next
        case (Some rows)
        with fetchSprints_rows [OF u c] q Reply show ?thesis by simp
      qed
    qed
  qed
qed

lemma keeps_fetchSprints:
  fixes g :: "'r world \<Rightarrow> 'b"
  assumes "\<And>f w. g (remote_update f w) = g w"
      and "\<And>f w. g (tasks_update f w) = g w"
      and "\<And>f w. g (sprints_update f w) = g w"
      and "\<And>f w. g (lastFetchTime_update f w) = g w"
      and "\<And>f w. g (fetchErrors_update f w) = g w"
      and "\<And>f w. g (clock_update f w) = g w"
  shows "keeps g (fetchSprints gw user snap pid force)"
  unfolding keeps_def
proof
  fix w :: "'r world"
  note loop = keeps_sprintLoop [of g, OF assms(1,2,4,5,6), unfolded keeps_def, rule_format]
  show "g (snd (fetchSprints gw user snap pid force w)) = g w"
  proof (cases "user \<noteq> None \<and> (force \<or> \<not> sprintsCacheHit snap (clock w) pid)")
    case False
    then show ?thesis by (auto simp: fetchSprints_def)
  next
    case True
    then have u: "user \<noteq> None" and c: "force \<or> \<not> sprintsCacheHit snap (clock w) pid" by auto
    obtain rep r where q: "selectSprints gw pid (remote w) = (rep, r)" by force
    show ?thesis
    proof (cases rep)
      case (Failed e)
      with fetchSprints_failed [OF u c] q show ?thesis
        by (simp add: markFetchError_def assms)
    next
      case (Reply d)
      show ?thesis
      proof (cases d)
        case None
        with fetchSprints_null [OF u c] q Reply show ?thesis by (simp add: assms)
      next
        case (Some rows)
        with fetchSprints_rows [OF u c] q Reply show ?thesis
          by (simp add: loop updateFetchTime_def assms)
      qed
    qed
  qed
qed

lemma neverRaises_fetchProjectScope: "neverRaises (fetchProjectScope gw user snap project)"
  unfolding fetchProjectScope_def
  by (intro neverRaises_andThen neverRaises_fetchSprints neverRaises_fetchBacklogTasks
        neverRaises_delay)

lemma scopeLoop_caught:
  "tryCatch (forEach (fetchProjectScope gw user snap) xs w') h
   = (Inr (), snd (forEach (fetchProjectScope gw user snap) xs w'))"
  by (subst neverRaisesD [OF neverRaises_forEach, OF neverRaises_fetchProjectScope])
     (rule tryCatch_Inr)

lemma neverRaises_fetchProjects: "neverRaises (fetchProjects gw user snap)"
  unfolding neverRaises_def
proof
  fix w :: "'a world"
  show "fst (fetchProjects gw user snap w) = Inr ()"
  proof (cases user)
    case None
    then show ?thesis by (simp add: fetchProjects_def)
  next
    case (Some uid)
    show ?thesis
      by (cases rule: query_cases [of "selectProjects gw uid" "w\<lparr>isLoading := True\<rparr>"])
         (simp_all add: fetchProjects_def Some finallyDo_def Let_def scopeLoop_caught
            split: option.splits)
  qed
qed

lemma neverRaises_fetchCollaborativeProjects:
  "neverRaises (fetchCollaborativeProjects gw user snap)"
  unfolding neverRaises_def
proof
  fix w :: "'a world"
  show "fst (fetchCollaborativeProjects gw user snap w) = Inr ()"
  proof (cases user)
    case None
    then show ?thesis by (simp add: fetchCollaborativeProjects_def)
  next
    case (Some uid)
    show ?thesis
      by (cases rule: query_cases [of "selectCollaborators gw uid" w])
         (simp_all add: fetchCollaborativeProjects_def Some Let_def scopeLoop_caught
            split: option.splits)
  qed
qed

lemma fetchTasksBySprint_failed:
  assumes "user \<noteq> None" "force \<or> \<not> tasksCacheHit snap (clock w) sid"
      and "fst (selectTasksBySprint gw sid (remote w)) = Failed e"
  shows "failedFetch (''tasks-sprint-'' @ sid) w (snd (fetchTasksBySprint gw user snap sid force w))"
  using assms
  by (cases rule: query_cases [of "selectTasksBySprint gw sid" w])
     (auto simp: fetchTasksBySprint_def failedFetch_def markFetchError_def)

lemma fetchBacklogTasks_failed:
  assumes "user \<noteq> None" "force \<or> \<not> backlogCacheHit snap (clock w) pid"
      and "fst (selectBacklogTasks gw pid (remote w)) = Failed e"
  shows "failedFetch (''backlog-'' @ pid) w (snd (fetchBacklogTasks gw user snap pid force w))"
  using assms
  by (cases rule: query_cases [of "selectBacklogTasks gw pid" w])
     (auto simp: fetchBacklogTasks_def failedFetch_def markFetchError_def)

lemma fetchSprints_failed':
  assumes "user \<noteq> None" "force \<or> \<not> sprintsCacheHit snap (clock w) pid"
      and "fst (selectSprints gw pid (remote w)) = Failed e"
  shows "failedFetch (''sprints-'' @ pid) w (snd (fetchSprints gw user snap pid force w))"
proof -
  obtain r where "selectSprints gw pid (remote w) = (Failed e, r)"
    using assms(3) by (cases "selectSprints gw pid (remote w)") simp
  from fetchSprints_failed [OF assms(1,2) this] show ?thesis
    by (simp add: failedFetch_def markFetchError_def)
qed

lemma fetchProjects_failed:
  assumes "user = Some uid" "\<not> isLoading snap" "\<not> projectsCacheHit snap (clock w)"
      and "fst (selectProjects gw uid (remote w)) = Failed e"
  shows "failedFetch ''projects'' w (snd (fetchProjects gw user snap w))
         \<and> \<not> isLoading (snd (fetchProjects gw user snap w))"
  using assms
  by (cases rule: query_cases [of "selectProjects gw uid" "w\<lparr>isLoading := True\<rparr>"])
     (auto simp: fetchProjects_def failedFetch_def markFetchError_def finallyDo_def)

lemma fetchCollaborativeProjects_failed:
  assumes "user = Some uid" "\<not> isLoading snap" "\<not> collaborationsCacheHit snap (clock w)"
      and "fst (selectCollaborators gw uid (remote w)) = Failed e"
  shows "failedFetch ''collaborations'' w (snd (fetchCollaborativeProjects gw user snap w))"
  using assms
  by (cases rule: query_cases [of "selectCollaborators gw uid" w])
     (auto simp: fetchCollaborativeProjects_def failedFetch_def markFetchError_def)

lemma keeps_return: "keeps g (\<lambda>w. (res, w))"
  by (simp add: keeps_def)

lemma keeps_query:
  assumes "\<And>f w. g (remote_update f w) = g w"
  shows "keeps g (query q)"
  unfolding keeps_def
proof
  fix w :: "'a world"
  show "g (snd (query q w)) = g w"
    by (cases rule: query_cases [of q w]) (simp_all add: assms)
qed

lemma keeps_command:
  assumes "\<And>f w. g (remote_update f w) = g w"
  shows "keeps g (command c)"
  unfolding keeps_def
proof
  fix w :: "'a world"
  show "g (snd (command c w)) = g w"
    by (cases rule: command_cases [of c w]) (simp_all add: assms)
qed

lemma keeps_tryCatch:
  assumes "keeps g m" "\<And>e. keeps g (h e)"
  shows "keeps g (\<lambda>w. tryCatch (m w) h)"
  unfolding keeps_def
proof
  fix w
  show "g (snd (tryCatch (m w) h)) = g w"
  proof (cases "m w")
    case (Pair res w1)
    then have "g w1 = g w" using assms(1) by (metis keeps_def snd_conv)
    then show ?thesis
      using Pair assms(2) by (cases res) (simp_all add: keeps_def)
  qed
qed

lemma keeps_after:
  assumes "keeps g f" "\<And>w. g (u w) = g w"
  shows "keeps g (\<lambda>w. f (u w))"
  using assms by (simp add: keeps_def)

lemma truthy_Some: "truthy x = Some pid \<Longrightarrow> truthy (Some pid) = Some pid"
  by (auto simp: truthy_def split: option.splits if_splits)

lemma keeps_refreshProjectData:
  fixes g :: "'r world \<Rightarrow> 'b"
  assumes t: "truthy projectId = Some pid"
      and g: "\<And>f w. g (remote_update f w) = g w" "\<And>f w. g (tasks_update f w) = g w"
        "\<And>f w. g (sprints_update f w) = g w" "\<And>f w. g (lastFetchTime_update f w) = g w"
        "\<And>f w. g (fetchErrors_update f w) = g w" "\<And>f w. g (clock_update f w) = g w"
  shows "keeps g (refreshProjectData gw user snap projectId)"
proof (cases "user = None")
  case True
  then show ?thesis by (simp add: refreshProjectData_def keeps_def)
next
  case False
  let ?n = "(lastFetchTime snap)(''sprints-'' @ pid := None, ''backlog-'' @ pid := None)"
  have eq: "refreshProjectData gw user snap projectId =
      (\<lambda>w. tryCatch
         (andThen (fetchSprints gw user snap pid True (w\<lparr>lastFetchTime := ?n\<rparr>))
            (\<lambda>_ w2. andThen (fetchBacklogTasks gw user snap pid True w2)
               (\<lambda>_ w3. forEach (\<lambda>sprint. fetchTasksBySprint gw user snap (s_id sprint) True)
                          (filter (\<lambda>s. s_projectId s = pid) (sprints snap)) w3)))
         (\<lambda>e w'. (Inr (), w')))"
    by (rule ext) (simp add: refreshProjectData_def False t Let_def)
  have k1: "keeps g (\<lambda>w. fetchSprints gw user snap pid True (w\<lparr>lastFetchTime := ?n\<rparr>))"
    by (rule keeps_after [OF keeps_fetchSprints]) (simp_all add: g)
  have k2: "keeps g (\<lambda>w2. andThen (fetchBacklogTasks gw user snap pid True w2)
               (\<lambda>_ w3. forEach (\<lambda>sprint. fetchTasksBySprint gw user snap (s_id sprint) True)
                          (filter (\<lambda>s. s_projectId s = pid) (sprints snap)) w3))"
    by (intro keeps_andThen keeps_fetchBacklogTasks keeps_forEach keeps_fetchTasksBySprint g)
  show ?thesis
    unfolding eq
    by (intro keeps_tryCatch keeps_andThen k1 k2 keeps_return)
qed

lemma keeps_deleteSprint:
  fixes g :: "'r world \<Rightarrow> 'b"
  assumes g: "\<And>f w. g (remote_update f w) = g w" "\<And>f w. g (tasks_update f w) = g w"
        "\<And>f w. g (sprints_update f w) = g w" "\<And>f w. g (lastFetchTime_update f w) = g w"
        "\<And>f w. g (fetchErrors_update f w) = g w" "\<And>f w. g (clock_update f w) = g w"
  shows "keeps g (deleteSprint gw user snap ident)"
proof (cases "user = None")
  case True
  then show ?thesis by (simp add: deleteSprint_def keeps_def)
next
  case False
  let ?pid = "truthy (map_option s_projectId (find (\<lambda>s. s_id s = ident) (sprints snap)))"
  let ?last = "\<lambda>w4. let w5 = w4\<lparr> sprints := filter (\<lambda>s. s_id s \<noteq> ident) (sprints w4),
                                      tasks := filter (\<lambda>t. t_sprintId t \<noteq> ident) (tasks w4) \<rparr>
                        in case ?pid of
                             None \<Rightarrow> (Inr (), w5)
                           | Some pid \<Rightarrow> refreshProjectData gw user snap (Some pid) w5"
  have eq: "deleteSprint gw user snap ident =
      (\<lambda>w. tryCatch
         (andThen (query (selectBoardColumns gw ident) w)
            (\<lambda>columnsData w1.
               andThen
                 (case columnsData of
                    None \<Rightarrow> (Inr (), w1)
                  | Some columns \<Rightarrow>
                      forEach (\<lambda>column. command (deleteBoardColumn gw column)) columns w1)
                 (\<lambda>_ w2.
                    andThen (command (deleteTasksOfSprint gw ident) w2)
                      (\<lambda>_ w3. andThen (command (deleteSprintRow gw ident) w3) (\<lambda>_. ?last)))))
         (\<lambda>e w'. (Inl e, w')))"
    by (rule ext) (simp add: deleteSprint_def False Let_def)
  have last: "keeps g ?last"
  proof (cases ?pid)
    case None
    then show ?thesis by (simp add: keeps_def g)
  next
    case (Some pid)
    have "keeps g (\<lambda>w4. refreshProjectData gw user snap (Some pid)
             (w4\<lparr> sprints := filter (\<lambda>s. s_id s \<noteq> ident) (sprints w4),
                   tasks := filter (\<lambda>t. t_sprintId t \<noteq> ident) (tasks w4) \<rparr>))"
      by (rule keeps_after [OF keeps_refreshProjectData [OF truthy_Some [OF Some]]])
         (simp_all add: g)
    then show ?thesis by (simp add: Some Let_def)
  qed
  have cols: "keeps g (\<lambda>w1. case columnsData of
                    None \<Rightarrow> (Inr (), w1)
                  | Some columns \<Rightarrow>
                      forEach (\<lambda>column. command (deleteBoardColumn gw column)) columns w1)"
    for columnsData
    by (cases columnsData) (simp_all add: keeps_return keeps_forEach keeps_command g)
  show ?thesis
    unfolding eq
    by (intro keeps_tryCatch keeps_andThen keeps_query keeps_command cols last keeps_return g)
qed

lemma deleteProject_unfold:
  "deleteProject gw (Some uid) snap ident w =
     (case forEach (deleteSprint gw (Some uid) snap)
             (map s_id (filter (\<lambda>s. s_projectId s = ident) (sprints snap))) w of
        (Inl e, w1) \<Rightarrow> (Inl e, w1)
      | (Inr _, w1) \<Rightarrow>
          (case command (deleteBacklogOfProject gw ident) w1 of
             (Inl e, w2) \<Rightarrow> (Inl e, w2)
           | (Inr _, w2) \<Rightarrow>
               (case command (deleteProjectRow gw ident uid) w2 of
                  (Inl e, w3) \<Rightarrow> (Inl e, w3)
                | (Inr _, w3) \<Rightarrow>
                    (Inr (),
                     w3\<lparr> projects := filter (\<lambda>p. p_id p \<noteq> ident) (projects w3),
                         sprints := filter (\<lambda>s. s_projectId s \<noteq> ident) (sprints w3),
                         tasks := filter (\<lambda>t. t_sprintId t \<notin>
                                      set (map s_id (filter (\<lambda>s. s_projectId s = ident) (sprints snap)))
                                    \<and> t_projectId t \<noteq> Some ident) (tasks w3),
                         burndownData := (burndownData w3)(ident := None) \<rparr>))))"
  by (simp add: deleteProject_def Let_def andThen_def tryCatch_def split: prod.splits sum.splits)

lemma completion_stamped:
  assumes "t_completionDate existingTask = None" "tp_status p = Some ''done''"
      and "t_status existingTask \<noteq> ''done''" "valueOf (tp_completionDate p) = None"
  shows "t_completionDate (updatedTask existingTask p now) = Some (utcDay now)"
  using assms
  by (auto simp: updatedTask_def stampsCompletion_def mergedTask_def applyPatch_def orKeep_def
        valueOf_def Let_def split: option.splits)

lemma completion_kept:
  assumes "tp_status p = Some ''done''"
      and "t_status existingTask = ''done'' \<or> t_completionDate existingTask \<noteq> None"
      and "tp_completionDate p = None"
  shows "t_completionDate (updatedTask existingTask p now) = t_completionDate existingTask"
  using assms
  by (auto simp: updatedTask_def stampsCompletion_def mergedTask_def applyPatch_def orKeep_def
        Let_def split: option.splits)

lemma fetch_return:
  "fetchTasksBySprint gw user snap sid force w
   = (Inr (), snd (fetchTasksBySprint gw user snap sid force w))"
  "fetchBacklogTasks gw user snap pid force w
   = (Inr (), snd (fetchBacklogTasks gw user snap pid force w))"
  by (rule neverRaisesD [OF neverRaises_fetchTasksBySprint])
     (rule neverRaisesD [OF neverRaises_fetchBacklogTasks])

lemma refetch_after_move:
  "\<exists>w'. andThen
          (if c then (case x of
                        None \<Rightarrow> (Inr (), w3)
                      | Some pid \<Rightarrow>
                          andThen
                            (if c2 then fetchTasksBySprint gw user snap sid True w3 else (Inr (), w3))
                            (\<lambda>_ w4.
                               andThen
                                 (case y of
                                    None \<Rightarrow> (Inr (), w4)
                                  | Some sid' \<Rightarrow> fetchTasksBySprint gw user snap sid' True w4)
                                 (\<lambda>_. fetchBacklogTasks gw user snap pid True)))
           else (Inr (), w3))
          (\<lambda>_ w6. (Inr new, w6)) = (Inr new, w')"
proof -
  have a: "\<exists>w'. andThen (case y of None \<Rightarrow> (Inr (), w4)
                          | Some sid' \<Rightarrow> fetchTasksBySprint gw user snap sid' True w4)
                   (\<lambda>_. fetchBacklogTasks gw user snap pid True) = (Inr (), w')" for w4 pid
    by (cases y) (simp, subst fetch_return(2), simp, simp, subst fetch_return(1), simp,
        subst fetch_return(2), simp)
  have b: "\<exists>w'. andThen
                  (if c2 then fetchTasksBySprint gw user snap sid True w3 else (Inr (), w3))
                  (\<lambda>_ w4.
                     andThen
                       (case y of
                          None \<Rightarrow> (Inr (), w4)
                        | Some sid' \<Rightarrow> fetchTasksBySprint gw user snap sid' True w4)
                       (\<lambda>_. fetchBacklogTasks gw user snap pid True)) = (Inr (), w')" for pid
  proof (cases c2)
    case True
    show ?thesis
      using a by (simp add: True) (subst fetch_return(1), simp)
  next
    case False
    then show ?thesis using a by simp
  qed
  show ?thesis
  proof (cases "c")
    case False
    then show ?thesis by simp
  next
    case True
    show ?thesis
    proof (cases x)
      case None
      then show ?thesis using True by simp
    next
      case (Some pid)
      from b [of pid] obtain w' where "andThen
                  (if c2 then fetchTasksBySprint gw user snap sid True w3 else (Inr (), w3))
                  (\<lambda>_ w4.
                     andThen
                       (case y of
                          None \<Rightarrow> (Inr (), w4)
                        | Some sid' \<Rightarrow> fetchTasksBySprint gw user snap sid' True w4)
                       (\<lambda>_. fetchBacklogTasks gw user snap pid True)) = (Inr (), w')" ..
      then show ?thesis using True Some by simp
    qed
  qed
qed

lemma refetch_after_move_caught:
  "fst (tryCatch
         (andThen
          (if c then (case x of
                        None \<Rightarrow> (Inr (), w3)
                      | Some pid \<Rightarrow>
                          andThen
                            (if c2 then fetchTasksBySprint gw user snap sid True w3 else (Inr (), w3))
                            (\<lambda>_ w4.
                               andThen
                                 (case y of
                                    None \<Rightarrow> (Inr (), w4)
                                  | Some sid' \<Rightarrow> fetchTasksBySprint gw user snap sid' True w4)
                                 (\<lambda>_. fetchBacklogTasks gw user snap pid True)))
           else (Inr (), w3))
          (\<lambda>_ w6. (Inr new, w6))) h) = Inr new"
proof -
  from refetch_after_move [where c=c and x=x and ?w3.0=w3 and ?c2.0=c2 and gw=gw and user=user
      and snap=snap and sid=sid and y=y and new=new]
  obtain w' where "andThen
          (if c then (case x of
                        None \<Rightarrow> (Inr (), w3)
                      | Some pid \<Rightarrow>
                          andThen
                            (if c2 then fetchTasksBySprint gw user snap sid True w3 else (Inr (), w3))
                            (\<lambda>_ w4.
                               andThen
                                 (case y of
                                    None \<Rightarrow> (Inr (), w4)
                                  | Some sid' \<Rightarrow> fetchTasksBySprint gw user snap sid' True w4)
                                 (\<lambda>_. fetchBacklogTasks gw user snap pid True)))
           else (Inr (), w3))
          (\<lambda>_ w6. (Inr new, w6)) = (Inr new, w')" ..
  then show ?thesis by (simp only: tryCatch_Inr fst_conv)
qed

lemma updateTask_returns:
  assumes "user \<noteq> None" "find (\<lambda>t. t_id t = ident) (tasks snap) = Some existingTask"
      and "fst (updateTaskRow gw ident (updateData p) (remote w)) = None"
  shows "fst (updateTask gw user snap ident p w) = Inr (updatedTask existingTask p (clock w))"
proof -
  obtain r where r: "updateTaskRow gw ident (updateData p) (remote w) = (None, r)"
    using assms(3) by (cases "updateTaskRow gw ident (updateData p) (remote w)") simp
  have cmd: "command (updateTaskRow gw ident (updateData p)) w = (Inr (), w\<lparr>remote := r\<rparr>)"
    by (simp add: command_def r)
  show ?thesis
    unfolding updateTask_def Let_def
    by (simp only: assms(1,2) if_False option.simps cmd andThen_Inr refetch_after_move_caught)
       simp
qed

lemma updateTask_cache:
  assumes "user \<noteq> None" "find (\<lambda>t. t_id t = ident) (tasks snap) = Some existingTask"
      and "fst (updateTaskRow gw ident (updateData p) (remote w)) = None"
      and "\<not> relocated existingTask p"
  shows "tasks (snd (updateTask gw user snap ident p w))
         = map (\<lambda>t. if t_id t = ident then updatedTask existingTask p (clock w) else t) (tasks w)"
proof -
  obtain r where r: "updateTaskRow gw ident (updateData p) (remote w) = (None, r)"
    using assms(3) by (cases "updateTaskRow gw ident (updateData p) (remote w)") simp
  have cmd: "command (updateTaskRow gw ident (updateData p)) w = (Inr (), w\<lparr>remote := r\<rparr>)"
    by (simp add: command_def r)
  show ?thesis
    by (simp add: updateTask_def assms(1,2,4) cmd Let_def)
qed

section \<open>The project store: properties\<close>

text \<open>The definitions unfolded to run the store on the example data.\<close>

lemmas store_run =
  deleteProject_def deleteSprint_def refreshProjectData_def fetchSprints_def fetchTasksBySprint_def
  fetchBacklogTasks_def updateTask_def query_def command_def truthy_def Let_def updateFetchTime_def
  markFetchError_def delay_def formatSprint_def projectsCacheHit_def collaborationsCacheHit_def
  sprintsCacheHit_def tasksCacheHit_def backlogCacheHit_def shouldRefetch_def errored_def
  getSprintsByProject_def getTasksBySprint_def cascadeSprintIds_def updateData_def updatedTask_def
  mergedTask_def stampsCompletion_def applyPatch_def orKeep_def valueOf_def relocated_def
  utcDay_def

lemmas alpha_data =
  quietGateway_def backlogFailGateway_def offlineGateway_def alphaWorld_def alphaSprints_def
  alphaTasks_def alphaTask_def betaSprint_def alphaProject_def gammaProject_def emptyPatch_def
  donePatch_def backdatedPatch_def




text \<open>\<open>shouldRefetch\<close> itself does not read the error flag.\<close>

lemma shouldRefetch_ignores_error_flag:
  "errored (markFetchError k (updateFetchTime k w)) k
   \<and> \<not> shouldRefetch (markFetchError k (updateFetchTime k w)) (clock w) k 60000"
  by (simp add: shouldRefetch_def errored_def markFetchError_def updateFetchTime_def)

text \<open>
  C3 (as amended).  When the user is authenticated, the task is cached and the remote
  update succeeds, an update to \<open>done\<close> returns (and, when the task does not move
  between sprint and backlog, caches) the record \<open>updatedTask\<close>.  Its completion date is
  today's date when the task had none, was not \<open>done\<close> and the update supplies no
  completion date; it is the former completion date when the task was already \<open>done\<close> or
  had a completion date, and the update has no \<open>completionDate\<close> field.
\<close>

theorem updateTask_completion_date:
  assumes "user \<noteq> None" "find (\<lambda>t. t_id t = ident) (tasks snap) = Some existingTask"
      and "fst (updateTaskRow gw ident (updateData p) (remote w)) = None"
      and "tp_status p = Some ''done''"
  shows "fst (updateTask gw user snap ident p w) = Inr (updatedTask existingTask p (clock w))
       \<and> (\<not> relocated existingTask p \<longrightarrow>
            tasks (snd (updateTask gw user snap ident p w))
            = map (\<lambda>t. if t_id t = ident then updatedTask existingTask p (clock w) else t) (tasks w))
       \<and> (t_completionDate existingTask = None \<and> t_status existingTask \<noteq> ''done''
            \<and> valueOf (tp_completionDate p) = None \<longrightarrow>
            t_completionDate (updatedTask existingTask p (clock w)) = Some (utcDay (clock w)))
       \<and> ((t_status existingTask = ''done'' \<or> t_completionDate existingTask \<noteq> None)
            \<and> tp_completionDate p = None \<longrightarrow>
            t_completionDate (updatedTask existingTask p (clock w))
            = t_completionDate existingTask)"
  using updateTask_returns [OF assms(1-3)] updateTask_cache [OF assms(1-3)]
    completion_stamped [of existingTask p "clock w", OF _ assms(4)]
    completion_kept [of p existingTask "clock w", OF assms(4)]
  by blast

theorem updateTask_completion_date_witness:
  "find (\<lambda>t. t_id t = ''B'') (tasks alphaWorld) = Some (alphaTask ''B'' ''s1'' ''todo'' 3 None)
   \<and> find (\<lambda>t. t_id t = ''A'') (tasks alphaWorld)
       = Some (alphaTask ''A'' ''s1'' ''done'' 5 (Some 19725))
   \<and> fst (updateTaskRow quietGateway ''B'' (updateData donePatch) (remote alphaWorld)) = None
   \<and> tp_status donePatch = Some ''done''
   \<and> valueOf (tp_completionDate donePatch) = None
   \<and> fst (updateTask quietGateway (Some ''u'') alphaWorld ''B'' donePatch alphaWorld)
       = Inr (updatedTask (alphaTask ''B'' ''s1'' ''todo'' 3 None) donePatch (clock alphaWorld))
   \<and> t_completionDate
         (updatedTask (alphaTask ''B'' ''s1'' ''todo'' 3 None) donePatch (clock alphaWorld))
       = Some 19727
   \<and> t_completionDate
         (updatedTask (alphaTask ''A'' ''s1'' ''done'' 5 (Some 19725)) donePatch (clock alphaWorld))
       = Some 19725"
proof -
  let ?A = "alphaTask ''A'' ''s1'' ''done'' 5 (Some 19725)"
  let ?B = "alphaTask ''B'' ''s1'' ''todo'' 3 None"
  have u: "Some ''u'' \<noteq> (None :: user option)" by simp
  have fB: "find (\<lambda>t. t_id t = ''B'') (tasks alphaWorld) = Some ?B"
    and fA: "find (\<lambda>t. t_id t = ''A'') (tasks alphaWorld) = Some ?A"
    by (simp_all add: alphaWorld_def alphaTasks_def alphaTask_def)
  have rB: "fst (updateTaskRow quietGateway ''B'' (updateData donePatch) (remote alphaWorld)) = None"
    and rA: "fst (updateTaskRow quietGateway ''A'' (updateData donePatch) (remote alphaWorld)) = None"
    by (simp_all add: quietGateway_def)
  have d: "tp_status donePatch = Some ''done''"
    and n: "tp_completionDate donePatch = None" "valueOf (tp_completionDate donePatch) = None"
    by (simp_all add: donePatch_def emptyPatch_def valueOf_def)
  have sB: "t_completionDate ?B = None" "t_status ?B \<noteq> ''done''"
    and sA: "t_status ?A = ''done''" "t_completionDate ?A = Some 19725"
    by (simp_all add: alphaTask_def)
  have today: "utcDay (clock alphaWorld) = 19727"
    by (simp add: utcDay_def alphaWorld_def)
  from updateTask_completion_date [OF u fB rB d] sB n today
  have b: "fst (updateTask quietGateway (Some ''u'') alphaWorld ''B'' donePatch alphaWorld)
             = Inr (updatedTask ?B donePatch (clock alphaWorld))"
    "t_completionDate (updatedTask ?B donePatch (clock alphaWorld)) = Some 19727"
    by simp_all
  from updateTask_completion_date [OF u fA rA d] sA n
  have a: "t_completionDate (updatedTask ?A donePatch (clock alphaWorld)) = Some 19725"
    by simp
  from fB fA rB d n a b show ?thesis by blast
qed

text \<open>
  As stated, C3 has every transition into \<open>done\<close> of a task without completion date set
  today's date.  An update to \<open>done\<close> that supplies its own completion date keeps the
  supplied one.
\<close>

theorem updateTask_explicit_completion_date:
  "find (\<lambda>t. t_id t = ''B'') (tasks alphaWorld) = Some (alphaTask ''B'' ''s1'' ''todo'' 3 None)
   \<and> tp_status backdatedPatch = Some ''done''
   \<and> map_sum id t_completionDate
        (fst (updateTask quietGateway (Some ''u'') alphaWorld ''B'' backdatedPatch alphaWorld))
       = Inr (Some 19000)
   \<and> utcDay (clock alphaWorld) = 19727"
  by (simp add: store_run alpha_data)

text \<open>
  C4.  When \<open>fetchSprints\<close> for a project reads the remote and the read succeeds with
  rows of that project, it does not raise; the cached sprints are the former sprints of
  the other projects followed by the fetched ones, so that the sprints of the project are
  exactly the fetched ones and those of every other project are as before.  With zero
  rows the project has no cached sprint left.
\<close>

theorem fetchSprints_replaces_scope:
  assumes "user \<noteq> None" "force \<or> \<not> sprintsCacheHit snap (clock w) pid"
      and "selectSprints gw pid (remote w) = (Reply (Some rows), r)"
      and "\<forall>row \<in> set rows. sr_project_id row = pid"
  shows "fst (fetchSprints gw user snap pid force w) = Inr ()
       \<and> sprints (snd (fetchSprints gw user snap pid force w))
           = filter (\<lambda>s. s_projectId s \<noteq> pid) (sprints w) @ map formatSprint rows
       \<and> getSprintsByProject (sprints (snd (fetchSprints gw user snap pid force w))) pid
           = map formatSprint rows
       \<and> filter (\<lambda>s. s_projectId s \<noteq> pid) (sprints (snd (fetchSprints gw user snap pid force w)))
           = filter (\<lambda>s. s_projectId s \<noteq> pid) (sprints w)
       \<and> (rows = [] \<longrightarrow>
            getSprintsByProject (sprints (snd (fetchSprints gw user snap pid force w))) pid = [])"
proof -
  let ?res = "fetchSprints gw user snap pid force w"
  have loop: "sprints (snd (forEach (\<lambda>sprint w3.
       andThen (fetchTasksBySprint gw user snap (s_id sprint) force w3) (\<lambda>_. delay 300)) xs w'))
       = sprints w'" for xs w'
    using keeps_sprintLoop [of sprints gw user snap force xs] by (simp add: keeps_def)
  have s: "sprints (snd ?res) = filter (\<lambda>s. s_projectId s \<noteq> pid) (sprints w) @ map formatSprint rows"
    unfolding fetchSprints_rows [OF assms(1-3)] by (simp add: loop updateFetchTime_def)
  have own: "filter (\<lambda>s. s_projectId s = pid) (map formatSprint rows) = map formatSprint rows"
    using assms(4) by (auto simp: filter_id_conv formatSprint_def)
  have other: "filter (\<lambda>s. s_projectId s \<noteq> pid) (map formatSprint rows) = []"
    using assms(4) by (auto simp: filter_empty_conv formatSprint_def)
  have c3: "getSprintsByProject (sprints (snd ?res)) pid = map formatSprint rows"
    by (simp add: s getSprintsByProject_def own)
  have c4: "filter (\<lambda>s. s_projectId s \<noteq> pid) (sprints (snd ?res))
            = filter (\<lambda>s. s_projectId s \<noteq> pid) (sprints w)"
    by (simp add: s other)
  have c1: "fst ?res = Inr ()"
    by (simp add: fetchSprints_rows [OF assms(1-3)])
  have c5: "rows = [] \<longrightarrow> getSprintsByProject (sprints (snd ?res)) pid = []"
    by (simp add: c3)
  from c1 s c3 c4 c5 show ?thesis by blast
qed

theorem fetchSprints_replaces_scope_witness:
  "selectSprints quietGateway ''alpha'' (remote alphaWorld) = (Reply (Some []), ())
   \<and> getSprintsByProject (sprints alphaWorld) ''alpha'' = alphaSprints
   \<and> fst (fetchSprints quietGateway (Some ''u'') alphaWorld ''alpha'' True alphaWorld) = Inr ()
   \<and> getSprintsByProject
         (sprints (snd (fetchSprints quietGateway (Some ''u'') alphaWorld ''alpha'' True alphaWorld)))
         ''alpha'' = []
   \<and> filter (\<lambda>s. s_projectId s \<noteq> ''alpha'')
         (sprints (snd (fetchSprints quietGateway (Some ''u'') alphaWorld ''alpha'' True alphaWorld)))
       = [betaSprint]"
proof -
  have u: "Some ''u'' \<noteq> (None :: user option)" by simp
  have f: "True \<or> \<not> sprintsCacheHit alphaWorld (clock alphaWorld) ''alpha''" by simp
  have q: "selectSprints quietGateway ''alpha'' (remote alphaWorld) = (Reply (Some []), ())"
    by (simp add: quietGateway_def)
  have r: "\<forall>row \<in> set ([] :: sprint_row list). sr_project_id row = ''alpha''" by simp
  have before: "getSprintsByProject (sprints alphaWorld) ''alpha'' = alphaSprints"
    "filter (\<lambda>s. s_projectId s \<noteq> ''alpha'') (sprints alphaWorld) = [betaSprint]"
    by (simp_all add: getSprintsByProject_def alphaWorld_def alphaSprints_def betaSprint_def)
  from fetchSprints_replaces_scope [OF u f q r, unfolded before] q before(1)
  show ?thesis by blast
qed

text \<open>
  C6 (as amended).  For an authenticated user, a \<open>deleteProject\<close> that returns leaves no
  cached project with that identifier, no cached sprint of the project, no cached task
  that names the project or one of its sprints, and no burndown series of the project.
  A \<open>deleteProject\<close> that does not return raises; it raises when the cascade over the
  sprints raises, when the deletion of the backlog tasks fails, and when the deletion of
  the project row fails.  In that case the cached projects and the burndown store are as
  before.
\<close>

theorem deleteProject_cascade:
  fixes w :: "'r world"
  assumes "user = Some uid"
      and "res = deleteProject gw user snap ident w"
      and "cascade = forEach (deleteSprint gw user snap) (cascadeSprintIds snap ident) w"
  shows "(fst res = Inr () \<longrightarrow>
            list_all (\<lambda>p. p_id p \<noteq> ident) (projects (snd res))
          \<and> list_all (\<lambda>s. s_projectId s \<noteq> ident) (sprints (snd res))
          \<and> list_all (\<lambda>t. t_projectId t \<noteq> Some ident
                           \<and> t_sprintId t \<notin> set (cascadeSprintIds snap ident)) (tasks (snd res))
          \<and> burndownData (snd res) ident = None)
       \<and> (fst res \<noteq> Inr () \<longrightarrow>
            (\<exists>e. fst res = Inl e)
          \<and> projects (snd res) = projects w
          \<and> burndownData (snd res) = burndownData w)
       \<and> (fst cascade = Inl e \<longrightarrow> fst res = Inl e)
       \<and> (fst cascade = Inr ()
            \<and> fst (deleteBacklogOfProject gw ident (remote (snd cascade))) = Some msg
          \<longrightarrow> fst res = Inl (RemoteError msg))
       \<and> (fst cascade = Inr ()
            \<and> deleteBacklogOfProject gw ident (remote (snd cascade)) = (None, r)
            \<and> fst (deleteProjectRow gw ident uid r) = Some msg
          \<longrightarrow> fst res = Inl (RemoteError msg))"
proof -
  let ?ids = "map s_id (filter (\<lambda>s. s_projectId s = ident) (sprints snap))"
  obtain c1 w1 where c: "forEach (deleteSprint gw (Some uid) snap) ?ids w = (c1, w1)"
    by force
  have kp: "projects w1 = projects w"
    using keeps_forEach [of projects "deleteSprint gw (Some uid) snap" ?ids,
        OF keeps_deleteSprint] c
    by (simp add: keeps_def) (metis snd_conv)
  have kb: "burndownData w1 = burndownData w"
    using keeps_forEach [of burndownData "deleteSprint gw (Some uid) snap" ?ids,
        OF keeps_deleteSprint] c
    by (simp add: keeps_def) (metis snd_conv)
  have casc: "cascade = (c1, w1)"
    using assms(1,3) c by (simp add: cascadeSprintIds_def)
  have res: "res =
     (case (c1, w1) of
        (Inl e, w1) \<Rightarrow> (Inl e, w1)
      | (Inr _, w1) \<Rightarrow>
          (case command (deleteBacklogOfProject gw ident) w1 of
             (Inl e, w2) \<Rightarrow> (Inl e, w2)
           | (Inr _, w2) \<Rightarrow>
               (case command (deleteProjectRow gw ident uid) w2 of
                  (Inl e, w3) \<Rightarrow> (Inl e, w3)
                | (Inr _, w3) \<Rightarrow>
                    (Inr (),
                     w3\<lparr> projects := filter (\<lambda>p. p_id p \<noteq> ident) (projects w3),
                         sprints := filter (\<lambda>s. s_projectId s \<noteq> ident) (sprints w3),
                         tasks := filter (\<lambda>t. t_sprintId t \<notin> set ?ids
                                    \<and> t_projectId t \<noteq> Some ident) (tasks w3),
                         burndownData := (burndownData w3)(ident := None) \<rparr>))))"
    unfolding assms(2) assms(1) deleteProject_unfold c ..
  show ?thesis
  proof (cases c1)
    case (Inl e')
    then show ?thesis
      using res casc kp kb by auto
  next
    case (Inr u)
    show ?thesis
    proof (cases rule: command_cases [of "deleteBacklogOfProject gw ident" w1])
      case (1 e2 r2)
      then show ?thesis
        using res casc kp kb Inr by auto
    next
      case (2 r2)
      show ?thesis
      proof (cases rule: command_cases [of "deleteProjectRow gw ident uid" "w1\<lparr>remote := r2\<rparr>"])
        case (1 e3 r3)
        then show ?thesis
          using res casc kp kb Inr 2 by auto
      next
        case (2 r3)
        then show ?thesis
          using res casc kp kb Inr \<open>deleteBacklogOfProject gw ident (remote w1) = (None, r2)\<close>
            \<open>command (deleteBacklogOfProject gw ident) w1 = (Inr (), w1\<lparr>remote := r2\<rparr>)\<close>
          by (auto simp: list_all_iff cascadeSprintIds_def)
      qed
    qed
  qed
qed

theorem deleteProject_cascade_witness:
  "fst (deleteProject quietGateway (Some ''u'') alphaWorld ''alpha'' alphaWorld) = Inr ()
   \<and> list_all (\<lambda>p. p_id p \<noteq> ''alpha'')
         (projects (snd (deleteProject quietGateway (Some ''u'') alphaWorld ''alpha'' alphaWorld)))
   \<and> list_all (\<lambda>s. s_projectId s \<noteq> ''alpha'')
         (sprints (snd (deleteProject quietGateway (Some ''u'') alphaWorld ''alpha'' alphaWorld)))
   \<and> list_all (\<lambda>t. t_projectId t \<noteq> Some ''alpha''
                    \<and> t_sprintId t \<notin> set (cascadeSprintIds alphaWorld ''alpha''))
         (tasks (snd (deleteProject quietGateway (Some ''u'') alphaWorld ''alpha'' alphaWorld)))
   \<and> burndownData (snd (deleteProject quietGateway (Some ''u'') alphaWorld ''alpha'' alphaWorld))
         ''alpha'' = None
   \<and> fst (forEach (deleteSprint backlogFailGateway (Some ''u'') alphaWorld)
            (cascadeSprintIds alphaWorld ''alpha'') alphaWorld) = Inr ()
   \<and> fst (deleteProject backlogFailGateway (Some ''u'') alphaWorld ''alpha'' alphaWorld)
       = Inl (RemoteError ''offline'')
   \<and> projects (snd (deleteProject backlogFailGateway (Some ''u'') alphaWorld ''alpha'' alphaWorld))
       = projects alphaWorld
   \<and> burndownData (snd (deleteProject backlogFailGateway (Some ''u'') alphaWorld ''alpha'' alphaWorld))
       = burndownData alphaWorld"
proof -
  have ok: "fst (deleteProject quietGateway (Some ''u'') alphaWorld ''alpha'' alphaWorld) = Inr ()"
    by (simp add: store_run alpha_data)
  have casc: "fst (forEach (deleteSprint backlogFailGateway (Some ''u'') alphaWorld)
                 (cascadeSprintIds alphaWorld ''alpha'') alphaWorld) = Inr ()"
    by (simp add: store_run alpha_data)
  have fails: "fst (deleteBacklogOfProject backlogFailGateway ''alpha'' r) = Some ''offline''" for r
    by (simp add: backlogFailGateway_def)
  note good = deleteProject_cascade [OF refl refl refl,
      where gw = quietGateway and uid = "''u''" and snap = alphaWorld and ident = "''alpha''"
        and w = alphaWorld]
  note bad = deleteProject_cascade [OF refl refl refl,
      where gw = backlogFailGateway and uid = "''u''" and snap = alphaWorld and ident = "''alpha''"
        and w = alphaWorld and msg = "''offline''"]
  have raised: "fst (deleteProject backlogFailGateway (Some ''u'') alphaWorld ''alpha'' alphaWorld)
                = Inl (RemoteError ''offline'')"
    using bad casc fails by blast
  then have "fst (deleteProject backlogFailGateway (Some ''u'') alphaWorld ''alpha'' alphaWorld)
             \<noteq> Inr ()"
    by simp
  with good bad ok casc raised show ?thesis by blast
qed


text \<open>
  As stated, C6 has a failing cascade perform no local removal.  The cascade runs
  \<open>deleteSprint\<close>, which removes the sprint and its tasks from the cache as soon as its own
  remote deletions succeed: when the deletion of the backlog tasks fails afterwards, the
  operation raises and the sprint and its tasks are gone from the cache.
\<close>

theorem deleteProject_partial_removal:
  "fst (deleteProject backlogFailGateway (Some ''u'') alphaWorld ''alpha'' alphaWorld)
     = Inl (RemoteError ''offline'')
   \<and> getSprintsByProject (sprints alphaWorld) ''alpha'' = alphaSprints
   \<and> getSprintsByProject
        (sprints (snd (deleteProject backlogFailGateway (Some ''u'') alphaWorld ''alpha'' alphaWorld)))
        ''alpha'' = []
   \<and> getTasksBySprint (tasks alphaWorld) ''s1'' = alphaTasks
   \<and> getTasksBySprint
        (tasks (snd (deleteProject backlogFailGateway (Some ''u'') alphaWorld ''alpha'' alphaWorld)))
        ''s1'' = []"
  by (simp add: store_run alpha_data)

text \<open>
  C7.  None of the five fetch operations raises, whatever the remote answers.  When the
  remote read of an operation fails, the cached projects, sprints and tasks, the burndown
  store and the fetch times are left as they were, and the key of the scope is flagged as
  errored.
\<close>

theorem fetch_failures_swallowed:
  assumes "user = Some uid"
  shows "fst (fetchProjects gw user snap w) = Inr ()
       \<and> fst (fetchCollaborativeProjects gw user snap w) = Inr ()
       \<and> fst (fetchSprints gw user snap pid force w) = Inr ()
       \<and> fst (fetchTasksBySprint gw user snap sid force w) = Inr ()
       \<and> fst (fetchBacklogTasks gw user snap pid force w) = Inr ()
       \<and> (\<not> isLoading snap \<and> \<not> projectsCacheHit snap (clock w)
            \<and> fst (selectProjects gw uid (remote w)) = Failed e
          \<longrightarrow> failedFetch ''projects'' w (snd (fetchProjects gw user snap w)))
       \<and> (\<not> isLoading snap \<and> \<not> collaborationsCacheHit snap (clock w)
            \<and> fst (selectCollaborators gw uid (remote w)) = Failed e
          \<longrightarrow> failedFetch ''collaborations'' w (snd (fetchCollaborativeProjects gw user snap w)))
       \<and> ((force \<or> \<not> sprintsCacheHit snap (clock w) pid)
            \<and> fst (selectSprints gw pid (remote w)) = Failed e
          \<longrightarrow> failedFetch (''sprints-'' @ pid) w (snd (fetchSprints gw user snap pid force w)))
       \<and> ((force \<or> \<not> tasksCacheHit snap (clock w) sid)
            \<and> fst (selectTasksBySprint gw sid (remote w)) = Failed e
          \<longrightarrow> failedFetch (''tasks-sprint-'' @ sid) w
                (snd (fetchTasksBySprint gw user snap sid force w)))
       \<and> ((force \<or> \<not> backlogCacheHit snap (clock w) pid)
            \<and> fst (selectBacklogTasks gw pid (remote w)) = Failed e
          \<longrightarrow> failedFetch (''backlog-'' @ pid) w
                (snd (fetchBacklogTasks gw user snap pid force w)))"
proof -
  have u: "user \<noteq> None" using assms by simp
  note nr = neverRaises_fetchProjects [unfolded neverRaises_def, rule_format]
    neverRaises_fetchCollaborativeProjects [unfolded neverRaises_def, rule_format]
    neverRaises_fetchSprints [unfolded neverRaises_def, rule_format]
    neverRaises_fetchTasksBySprint [unfolded neverRaises_def, rule_format]
    neverRaises_fetchBacklogTasks [unfolded neverRaises_def, rule_format]
  show ?thesis
    using fetchProjects_failed [OF assms, of snap w gw e]
      fetchCollaborativeProjects_failed [OF assms, of snap w gw e]
      fetchSprints_failed' [OF u, of force snap w pid gw e]
      fetchTasksBySprint_failed [OF u, of force snap w sid gw e]
      fetchBacklogTasks_failed [OF u, of force snap w pid gw e]
    by (simp only: nr) blast
qed

theorem fetch_failures_swallowed_witness:
  "\<not> isLoading alphaWorld
   \<and> \<not> projectsCacheHit alphaWorld (clock alphaWorld)
   \<and> \<not> collaborationsCacheHit alphaWorld (clock alphaWorld)
   \<and> fst (selectProjects offlineGateway ''u'' (remote alphaWorld)) = Failed ''offline''
   \<and> fst (selectCollaborators offlineGateway ''u'' (remote alphaWorld)) = Failed ''offline''
   \<and> fst (selectSprints offlineGateway ''alpha'' (remote alphaWorld)) = Failed ''offline''
   \<and> fst (selectTasksBySprint offlineGateway ''s1'' (remote alphaWorld)) = Failed ''offline''
   \<and> fst (selectBacklogTasks offlineGateway ''alpha'' (remote alphaWorld)) = Failed ''offline''
   \<and> fst (fetchProjects offlineGateway (Some ''u'') alphaWorld alphaWorld) = Inr ()
   \<and> fst (fetchSprints offlineGateway (Some ''u'') alphaWorld ''alpha'' True alphaWorld) = Inr ()
   \<and> failedFetch ''projects'' alphaWorld
         (snd (fetchProjects offlineGateway (Some ''u'') alphaWorld alphaWorld))
   \<and> failedFetch ''collaborations'' alphaWorld
         (snd (fetchCollaborativeProjects offlineGateway (Some ''u'') alphaWorld alphaWorld))
   \<and> failedFetch (''sprints-'' @ ''alpha'') alphaWorld
         (snd (fetchSprints offlineGateway (Some ''u'') alphaWorld ''alpha'' True alphaWorld))
   \<and> failedFetch (''tasks-sprint-'' @ ''s1'') alphaWorld
         (snd (fetchTasksBySprint offlineGateway (Some ''u'') alphaWorld ''s1'' True alphaWorld))
   \<and> failedFetch (''backlog-'' @ ''alpha'') alphaWorld
         (snd (fetchBacklogTasks offlineGateway (Some ''u'') alphaWorld ''alpha'' True alphaWorld))"
proof -
  have h: "\<not> isLoading alphaWorld"
    "\<not> projectsCacheHit alphaWorld (clock alphaWorld)"
    "\<not> collaborationsCacheHit alphaWorld (clock alphaWorld)"
    by (simp_all add: projectsCacheHit_def collaborationsCacheHit_def shouldRefetch_def
          alphaWorld_def)
  have q: "fst (selectProjects offlineGateway ''u'' (remote alphaWorld)) = Failed ''offline''"
    "fst (selectCollaborators offlineGateway ''u'' (remote alphaWorld)) = Failed ''offline''"
    "fst (selectSprints offlineGateway ''alpha'' (remote alphaWorld)) = Failed ''offline''"
    "fst (selectTasksBySprint offlineGateway ''s1'' (remote alphaWorld)) = Failed ''offline''"
    "fst (selectBacklogTasks offlineGateway ''alpha'' (remote alphaWorld)) = Failed ''offline''"
    by (simp_all add: offlineGateway_def quietGateway_def)
  from fetch_failures_swallowed [OF refl, where gw = offlineGateway and uid = "''u''"
      and snap = alphaWorld and w = alphaWorld and pid = "''alpha''" and sid = "''s1''"
      and force = True and e = "''offline''"] h q
  show ?thesis by blast
qed

text \<open>
  C9.  When \<open>fetchCollaborativeProjects\<close> reads the remote and the read succeeds with zero
  rows, nothing of the state changes: the cached projects, collaborations included, stay,
  and no fetch time is recorded.
\<close>

theorem fetchCollaborativeProjects_no_rows:
  assumes "user = Some uid" "\<not> isLoading snap" "\<not> collaborationsCacheHit snap (clock w)"
      and "selectCollaborators gw uid (remote w) = (Reply (Some []), r)"
  shows "fetchCollaborativeProjects gw user snap w = (Inr (), w\<lparr>remote := r\<rparr>)
       \<and> projects (snd (fetchCollaborativeProjects gw user snap w)) = projects w
       \<and> lastFetchTime (snd (fetchCollaborativeProjects gw user snap w)) = lastFetchTime w"
  using assms by (simp add: fetchCollaborativeProjects_def query_def)

theorem fetchCollaborativeProjects_no_rows_witness:
  "\<not> isLoading alphaWorld
   \<and> \<not> collaborationsCacheHit alphaWorld (clock alphaWorld)
   \<and> selectCollaborators quietGateway ''u'' (remote alphaWorld) = (Reply (Some []), ())
   \<and> list_ex p_isCollaboration (projects alphaWorld)
   \<and> fetchCollaborativeProjects quietGateway (Some ''u'') alphaWorld alphaWorld
       = (Inr (), alphaWorld\<lparr>remote := ()\<rparr>)
   \<and> projects (snd (fetchCollaborativeProjects quietGateway (Some ''u'') alphaWorld alphaWorld))
       = projects alphaWorld
   \<and> lastFetchTime (snd (fetchCollaborativeProjects quietGateway (Some ''u'') alphaWorld alphaWorld))
       = lastFetchTime alphaWorld"
proof -
  have h: "\<not> isLoading alphaWorld" "\<not> collaborationsCacheHit alphaWorld (clock alphaWorld)"
    by (simp_all add: collaborationsCacheHit_def shouldRefetch_def alphaWorld_def)
  have q: "selectCollaborators quietGateway ''u'' (remote alphaWorld) = (Reply (Some []), ())"
    by (simp add: quietGateway_def)
  have c: "list_ex p_isCollaboration (projects alphaWorld)"
    by (simp add: alphaWorld_def alphaProject_def gammaProject_def)
  from fetchCollaborativeProjects_no_rows [OF refl h q] h q c show ?thesis by blast
qed

end
